theory Spec2Isabelle
  imports Complex_Main "HOL-Library.Word"
begin

section \<open>JavaScript values\<close>

text \<open>
  A JavaScript string is a sequence of 16-bit code units. Literals of \<open>server.js\<close> are
  written \<open>js ''...''\<close>.
\<close>

type_synonym jschar = "16 word"
type_synonym jsstring = "jschar list"

definition js :: "string \<Rightarrow> jsstring" where
  "js s = map of_char s"

text \<open>
  A JavaScript number is a double: not-a-number, an infinity, or a finite value, which is a
  rational. \<open>Math.min\<close> and \<open>Math.max\<close> return one of their arguments, so no rounding
  is involved; the sign of zero is not represented.
\<close>

datatype jsnum = NaN | NegInf | Fin rat | PosInf

text \<open>The comparison \<open>a < b\<close> of two numbers: false whenever one of them is \<open>NaN\<close>.\<close>

fun js_lt :: "jsnum \<Rightarrow> jsnum \<Rightarrow> bool" where
  "js_lt NaN b = False"
| "js_lt a NaN = False"
| "js_lt a NegInf = False"
| "js_lt NegInf b = True"
| "js_lt PosInf b = False"
| "js_lt (Fin x) PosInf = True"
| "js_lt (Fin x) (Fin y) = (x < y)"

text \<open>The comparison \<open>a <= b\<close>: again false on \<open>NaN\<close>.\<close>

definition js_le :: "jsnum \<Rightarrow> jsnum \<Rightarrow> bool" where
  "js_le a b = (a \<noteq> NaN \<and> b \<noteq> NaN \<and> \<not> js_lt b a)"

definition Math_min :: "jsnum \<Rightarrow> jsnum \<Rightarrow> jsnum" where
  "Math_min a b = (if a = NaN \<or> b = NaN then NaN else if js_lt b a then b else a)"

definition Math_max :: "jsnum \<Rightarrow> jsnum \<Rightarrow> jsnum" where
  "Math_max a b = (if a = NaN \<or> b = NaN then NaN else if js_lt a b then b else a)"

datatype jsval =
    JUndefined
  | JNull
  | JBool bool
  | JNum jsnum
  | JStr jsstring
  | JArr "jsval list"
  | JObj "(jsstring \<times> jsval) list"

type_synonym props = "(jsstring \<times> jsval) list"

text \<open>Truthiness, as \<open>!x\<close>, \<open>x || y\<close> and \<open>if (x)\<close> test it.\<close>

fun truthy :: "jsval \<Rightarrow> bool" where
  "truthy JUndefined = False"
| "truthy JNull = False"
| "truthy (JBool b) = b"
| "truthy (JNum n) = (n \<noteq> NaN \<and> n \<noteq> Fin 0)"
| "truthy (JStr s) = (s \<noteq> [])"
| "truthy (JArr xs) = True"
| "truthy (JObj ps) = True"

definition js_or :: "jsval \<Rightarrow> jsval \<Rightarrow> jsval" where
  "js_or a b = (if truthy a then a else b)"

text \<open>
  Reading a property of a value that is neither \<open>undefined\<close> nor \<open>null\<close>. The names read
  in \<open>server.js\<close> (\<open>customers\<close>, \<open>services\<close>, \<open>appointments\<close>, \<open>total\<close>,
  \<open>message\<close>, \<open>apiKey\<close>, \<open>apiSecret\<close>, \<open>baseUrl\<close>) are not inherited by any
  value, so only an object's own properties answer.
\<close>

fun own_prop :: "jsval \<Rightarrow> jsstring \<Rightarrow> jsval" where
  "own_prop (JObj ps) k = (case map_of ps k of None \<Rightarrow> JUndefined | Some v \<Rightarrow> v)"
| "own_prop v k = JUndefined"

text \<open>An optional string (a header, a route parameter, a query parameter) as a value.\<close>

fun opt_str :: "jsstring option \<Rightarrow> jsval" where
  "opt_str None = JUndefined"
| "opt_str (Some s) = JStr s"

section \<open>Regular expressions\<close>

text \<open>
  The three patterns of \<open>server.js\<close> are built from character classes, concatenation and
  \<open>+\<close>, anchored at both ends, so \<open>test\<close> decides membership of the whole string in
  the pattern's language. \<open>rx_test\<close> decides it by derivatives.
\<close>

datatype rx = Zero | One | Cls "jschar \<Rightarrow> bool" | Alt rx rx | Cat rx rx | Star rx

definition Plus :: "rx \<Rightarrow> rx" where
  "Plus r = Cat r (Star r)"

definition Chr :: "char \<Rightarrow> rx" where
  "Chr ch = Cls (\<lambda>c. c = of_char ch)"

fun nullable :: "rx \<Rightarrow> bool" where
  "nullable Zero = False"
| "nullable One = True"
| "nullable (Cls p) = False"
| "nullable (Alt r s) = (nullable r \<or> nullable s)"
| "nullable (Cat r s) = (nullable r \<and> nullable s)"
| "nullable (Star r) = True"

fun deriv :: "jschar \<Rightarrow> rx \<Rightarrow> rx" where
  "deriv c Zero = Zero"
| "deriv c One = Zero"
| "deriv c (Cls p) = (if p c then One else Zero)"
| "deriv c (Alt r s) = Alt (deriv c r) (deriv c s)"
| "deriv c (Cat r s) =
     (if nullable r then Alt (Cat (deriv c r) s) (deriv c s) else Cat (deriv c r) s)"
| "deriv c (Star r) = Cat (deriv c r) (Star r)"

fun rx_test :: "rx \<Rightarrow> jsstring \<Rightarrow> bool" where
  "rx_test r [] = nullable r"
| "rx_test r (c # cs) = rx_test (deriv c r) cs"

text \<open>The language of a pattern, against which \<open>rx_test\<close> is proved correct.\<close>

definition conc :: "jsstring set \<Rightarrow> jsstring set \<Rightarrow> jsstring set" where
  "conc A B = {u @ v | u v. u \<in> A \<and> v \<in> B}"

inductive_set star :: "jsstring set \<Rightarrow> jsstring set" for A :: "jsstring set" where
  star_empty: "[] \<in> star A"
| star_step: "u \<in> A \<Longrightarrow> v \<in> star A \<Longrightarrow> u @ v \<in> star A"

fun lang :: "rx \<Rightarrow> jsstring set" where
  "lang Zero = {}"
| "lang One = {[]}"
| "lang (Cls p) = {[c] | c. p c}"
| "lang (Alt r s) = lang r \<union> lang s"
| "lang (Cat r s) = conc (lang r) (lang s)"
| "lang (Star r) = star (lang r)"

text \<open>
  The class \<open>\s\<close>: the white space and line terminator code units of ECMAScript.
  \<open>String.prototype.trim\<close> strips the same set.
\<close>

definition is_space :: "jschar \<Rightarrow> bool" where
  "is_space c =
     (c \<in> set [0x9, 0xA, 0xB, 0xC, 0xD, 0x20, 0xA0, 0x1680, 0x2028, 0x2029, 0x202F, 0x205F,
                0x3000, 0xFEFF]
      \<or> (0x2000 \<le> c \<and> c \<le> 0x200A))"

text \<open>The class \<open>\d\<close>: \<open>0\<close> to \<open>9\<close>.\<close>

definition is_digit :: "jschar \<Rightarrow> bool" where
  "is_digit c = (of_char CHR ''0'' \<le> c \<and> c \<le> of_char CHR ''9'')"

text \<open>The class \<open>[^\s@]\<close>.\<close>

definition not_space_at :: "jschar \<Rightarrow> bool" where
  "not_space_at c = (\<not> (is_space c \<or> c = of_char CHR ''@''))"

text \<open>The class \<open>[a-zA-Z0-9-_]\<close>: three ranges, then the hyphen and the underscore.\<close>

definition id_class :: "jschar \<Rightarrow> bool" where
  "id_class c =
     ((of_char CHR ''a'' \<le> c \<and> c \<le> of_char CHR ''z'')
      \<or> (of_char CHR ''A'' \<le> c \<and> c \<le> of_char CHR ''Z'')
      \<or> (of_char CHR ''0'' \<le> c \<and> c \<le> of_char CHR ''9'')
      \<or> c = of_char CHR ''-''
      \<or> c = of_char CHR ''_'')"

section \<open>Utility functions\<close>

text \<open>\<open>/^[^\s@]+@[^\s@]+\.[^\s@]+$/\<close>\<close>

definition emailRegex :: rx where
  "emailRegex =
     Cat (Plus (Cls not_space_at))
       (Cat (Chr CHR ''@'')
         (Cat (Plus (Cls not_space_at))
           (Cat (Chr CHR ''.'') (Plus (Cls not_space_at)))))"

definition isValidEmail :: "jsstring \<Rightarrow> bool" where
  "isValidEmail email = rx_test emailRegex email"

text \<open>\<open>/^[a-zA-Z0-9-_]+$/.test(id) && id.length > 0 && id.length < 100\<close>\<close>

definition isValidCustomerId :: "jsstring \<Rightarrow> bool" where
  "isValidCustomerId i =
     (rx_test (Plus (Cls id_class)) i \<and> length i > 0 \<and> length i < 100)"

text \<open>
  \<open>s.replace(/C/g, sub)\<close> for a one-character class \<open>C\<close> and a replacement without
  \<open>$\<close>: every code unit of the class is replaced, the others are kept.
\<close>

fun replace_class :: "(jschar \<Rightarrow> bool) \<Rightarrow> jsstring \<Rightarrow> jsstring \<Rightarrow> jsstring" where
  "replace_class p sub [] = []"
| "replace_class p sub (c # cs) =
     (if p c then sub @ replace_class p sub cs else c # replace_class p sub cs)"

text \<open>\<open>phone.replace(/\D/g, '')\<close>\<close>

definition cleanPhone :: "jsstring \<Rightarrow> jsstring" where
  "cleanPhone phone = replace_class (\<lambda>c. \<not> is_digit c) [] phone"

text \<open>\<open>String.prototype.trim\<close>\<close>

definition trim :: "jsstring \<Rightarrow> jsstring" where
  "trim s = rev (dropWhile is_space (rev (dropWhile is_space s)))"

text \<open>
  The pattern as the specification words it: the part after the dot is one or more
  non-whitespace characters.
\<close>

definition spec_email_pattern :: rx where
  "spec_email_pattern =
     Cat (Plus (Cls not_space_at))
       (Cat (Chr CHR ''@'')
         (Cat (Plus (Cls not_space_at))
           (Cat (Chr CHR ''.'') (Plus (Cls (\<lambda>c. \<not> is_space c))))))"

section \<open>Requests, replies and the provider\<close>

text \<open>
  \<open>process.env\<close>: the two variables the request path reads.
\<close>

record env =
  FIELDROUTES_API_URL :: "jsstring option"
  NODE_ENV :: "jsstring option"

text \<open>
  The axios instance of \<open>createFieldRoutesClient\<close>. \<open>bearer\<close> is the value
  interpolated into \<open>`Bearer ${apiKey}`\<close>, \<open>X_API_Secret\<close> the value of that header;
  the content type is the constant \<open>application/json\<close>.
\<close>

record client =
  baseURL :: jsval
  timeout :: nat
  bearer :: jsval
  X_API_Secret :: jsval

text \<open>
  One outbound call \<open>client.get(url, {params})\<close>; every call of \<open>server.js\<close> is a
  \<open>get\<close>.
\<close>

record outbound =
  via :: client
  url :: jsstring
  params :: props

text \<open>What axios hands back: \<open>response.status\<close> and \<open>response.data\<close>.\<close>

record axios_response =
  status :: nat
  data :: jsval

text \<open>
  A thrown error: \<open>error.message\<close> and \<open>error.response\<close> (absent for a network
  failure and for a \<open>TypeError\<close>).
\<close>

record js_error =
  message :: jsval
  response :: "axios_response option"

text \<open>
  The provider is the upstream collaborator: it answers a call with the body of a 2xx
  response, or the call is rejected with an error.
\<close>

datatype provider_result = Fulfilled jsval | Rejected js_error

type_synonym provider = "outbound \<Rightarrow> provider_result"

text \<open>
  The inbound request: the members of \<open>req.headers\<close>, \<open>req.params\<close>,
  \<open>req.query\<close> and \<open>req.body\<close> that the handlers read, and the client the middleware
  attaches. \<open>hdr_apiKey\<close> and \<open>hdr_apiSecret\<close> are \<open>req.headers.apiKey\<close> and
  \<open>req.headers.apiSecret\<close>, absent or a string. \<open>query_limit\<close> and
  \<open>query_offset\<close> hold the number that \<open>Math.min\<close> and \<open>Math.max\<close> convert
  the raw parameter to (\<open>NaN\<close> for text that is not numeric);
  \<open>query_q\<close> and \<open>query_status\<close> are strings, as a query string without repeated
  or bracketed keys gives them; \<open>body\<close> is \<open>req.body\<close>: the value that
  \<open>express.json()\<close> parsed, or \<open>undefined\<close> when no body was parsed.
\<close>

record request =
  hdr_apiKey :: "jsstring option"
  hdr_apiSecret :: "jsstring option"
  param_email :: "jsstring option"
  param_phone :: "jsstring option"
  param_id :: "jsstring option"
  query_q :: "jsstring option"
  query_limit :: "jsnum option"
  query_offset :: "jsnum option"
  query_status :: "jsstring option"
  body :: jsval
  fieldRoutesClient :: "client option"

text \<open>\<open>res.status(n).json(obj)\<close>: the status and the object as serialised.\<close>

record http_reply =
  statusCode :: nat
  json :: jsval

text \<open>
  What handling one request does: the reply sent, the clients constructed and the calls
  made to the provider, in order.
\<close>

record outcome =
  reply :: http_reply
  created :: "client list"
  calls :: "outbound list"

text \<open>
  Node hands \<open>req.headers\<close> to the application with every header name in lower case
  (\<open>A\<close> to \<open>Z\<close> become \<open>a\<close> to \<open>z\<close>). \<open>inbound raw req\<close> is the request
  whose header lines were \<open>raw\<close>: its two credential members are what the properties
  \<open>apiKey\<close> and \<open>apiSecret\<close> of that object hold. (Node joins the values of a
  repeated name; the first is kept here, which does not change which names are present.)
\<close>

definition toLowerCase :: "jschar \<Rightarrow> jschar" where
  "toLowerCase c =
     (if of_char CHR ''A'' \<le> c \<and> c \<le> of_char CHR ''Z'' then c + 0x20 else c)"

definition incoming_headers :: "(jsstring \<times> jsstring) list \<Rightarrow> (jsstring \<times> jsstring) list" where
  "incoming_headers raw = map (\<lambda>nv. (map toLowerCase (fst nv), snd nv)) raw"

definition inbound :: "(jsstring \<times> jsstring) list \<Rightarrow> request \<Rightarrow> request" where
  "inbound raw req =
     req\<lparr>hdr_apiKey := map_of (incoming_headers raw) (js ''apiKey''),
         hdr_apiSecret := map_of (incoming_headers raw) (js ''apiSecret'')\<rparr>"

text \<open>\<open>JSON.stringify\<close> leaves out the properties whose value is \<open>undefined\<close>.\<close>

definition send :: "nat \<Rightarrow> props \<Rightarrow> http_reply" where
  "send st ps = \<lparr>statusCode = st, json = JObj (filter (\<lambda>kv. snd kv \<noteq> JUndefined) ps)\<rparr>"

text \<open>
  \<open>x.k\<close> throws a \<open>TypeError\<close> on \<open>undefined\<close> and \<open>null\<close> (the message is V8's);
  \<open>x?.k\<close> yields \<open>undefined\<close> there.
\<close>

definition typeError :: "jsstring \<Rightarrow> jsstring \<Rightarrow> js_error" where
  "typeError what k =
     \<lparr>message = JStr (js ''Cannot read properties of '' @ what @ js '' (reading ''
                       @ [0x27] @ k @ [0x27] @ js '')''),
      response = None\<rparr>"

fun get_prop :: "jsval \<Rightarrow> jsstring \<Rightarrow> js_error + jsval" where
  "get_prop JUndefined k = Inl (typeError (js ''undefined'') k)"
| "get_prop JNull k = Inl (typeError (js ''null'') k)"
| "get_prop v k = Inr (own_prop v k)"

fun opt_prop :: "jsval \<Rightarrow> jsstring \<Rightarrow> jsval" where
  "opt_prop JUndefined k = JUndefined"
| "opt_prop JNull k = JUndefined"
| "opt_prop v k = own_prop v k"

text \<open>
  \<open>const { k, ... } = x\<close> throws a \<open>TypeError\<close> when \<open>x\<close> is \<open>undefined\<close> or
  \<open>null\<close>; V8's message names the first property \<open>k\<close> and the source text of
  \<open>x\<close>.
\<close>

definition destructureError :: "jsstring \<Rightarrow> jsstring \<Rightarrow> jsstring \<Rightarrow> js_error" where
  "destructureError k src what =
     \<lparr>message = JStr (js ''Cannot destructure property '' @ [0x27] @ k @ [0x27] @ js '' of ''
                       @ [0x27] @ src @ [0x27] @ js '' as it is '' @ what @ js ''.''),
      response = None\<rparr>"

fun destructure :: "jsval \<Rightarrow> jsstring \<Rightarrow> jsstring \<Rightarrow> js_error + jsval" where
  "destructure JUndefined k src = Inl (destructureError k src (js ''undefined''))"
| "destructure JNull k src = Inl (destructureError k src (js ''null''))"
| "destructure v k src = Inr v"

text \<open>The rest of a \<open>try\<close> block runs only when the step before it did not throw.\<close>

fun and_then :: "js_error + 'a \<Rightarrow> ('a \<Rightarrow> js_error + 'b) \<Rightarrow> js_error + 'b" where
  "and_then (Inl e) f = Inl e"
| "and_then (Inr x) f = f x"

text \<open>A destructuring default: \<open>const { limit = d } = req.query\<close>.\<close>

fun or_default :: "'a option \<Rightarrow> 'a \<Rightarrow> 'a" where
  "or_default None d = d"
| "or_default (Some x) d = x"

section \<open>The server\<close>

text \<open>
  The functions below describe a request that has reached its route: the CORS and
  rate-limit middleware run before the routes and are not part of them. What
  \<open>console.error\<close> logs is not part of the reply and is left out.
\<close>

definition FIELDROUTES_CONFIG_baseURL :: "env \<Rightarrow> jsval" where
  "FIELDROUTES_CONFIG_baseURL e =
     js_or (opt_str (FIELDROUTES_API_URL e)) (JStr (js ''https://api.fieldroutes.com/v1''))"

definition createFieldRoutesClient :: "env \<Rightarrow> jsval \<Rightarrow> jsval \<Rightarrow> client" where
  "createFieldRoutesClient e apiKey apiSecret =
     \<lparr>baseURL = FIELDROUTES_CONFIG_baseURL e, timeout = 10000,
      bearer = apiKey, X_API_Secret = apiSecret\<rparr>"

text \<open>
  \<open>await client.get(url, {params})\<close>: the call is recorded and the provider's answer
  is the value or the exception. Without a client, \<open>req.fieldRoutesClient.get\<close> throws.
\<close>

definition client_get ::
  "provider \<Rightarrow> client option \<Rightarrow> jsstring \<Rightarrow> props \<Rightarrow> (js_error + jsval) \<times> outbound list" where
  "client_get provider c u ps =
     (case c of
        None \<Rightarrow> (Inl (typeError (js ''undefined'') (js ''get'')), [])
      | Some cl \<Rightarrow>
          (let call = \<lparr>via = cl, url = u, params = ps\<rparr>
           in (case provider call of Fulfilled d \<Rightarrow> Inr d | Rejected err \<Rightarrow> Inl err, [call])))"

text \<open>\<open>error.response?.data\<close> and \<open>error.response?.data?.message\<close>\<close>

definition reported_data :: "js_error \<Rightarrow> jsval" where
  "reported_data error = (case response error of None \<Rightarrow> JUndefined | Some r \<Rightarrow> data r)"

definition reported_message :: "js_error \<Rightarrow> jsval" where
  "reported_message error = opt_prop (reported_data error) (js ''message'')"

definition handleApiError :: "env \<Rightarrow> js_error \<Rightarrow> jsstring \<Rightarrow> http_reply" where
  "handleApiError e error defaultMessage =
     (let st = (case response error of
                  None \<Rightarrow> 500
                | Some r \<Rightarrow> if status r = 0 then 500 else status r);
          msg = js_or (js_or (reported_message error) (message error)) (JStr defaultMessage)
      in send st
           [(js ''error'', JStr (js ''API Error'')),
            (js ''message'', msg),
            (js ''details'',
               if NODE_ENV e = Some (js ''development'') then reported_data error
               else JUndefined)])"

text \<open>The \<open>catch\<close> shared by the routes that have no special case.\<close>

definition caught ::
  "env \<Rightarrow> jsstring \<Rightarrow> (js_error + http_reply) \<times> outbound list \<Rightarrow> outcome" where
  "caught e defaultMessage r =
     (case fst r of
        Inr rep \<Rightarrow> \<lparr>reply = rep, created = [], calls = snd r\<rparr>
      | Inl error \<Rightarrow>
          \<lparr>reply = handleApiError e error defaultMessage, created = [], calls = snd r\<rparr>)"

definition missing_credentials :: http_reply where
  "missing_credentials =
     send 401 [(js ''error'', JStr (js ''Missing API credentials'')),
               (js ''message'', JStr (js ''API key and secret are required''))]"

definition validateCredentials :: "env \<Rightarrow> request \<Rightarrow> (request \<Rightarrow> outcome) \<Rightarrow> outcome" where
  "validateCredentials e req next =
     (let apiKey = opt_str (hdr_apiKey req); apiSecret = opt_str (hdr_apiSecret req)
      in if \<not> truthy apiKey \<or> \<not> truthy apiSecret
         then \<lparr>reply = missing_credentials, created = [], calls = []\<rparr>
         else (let c = createFieldRoutesClient e apiKey apiSecret;
                   out = next (req\<lparr>fieldRoutesClient := Some c\<rparr>)
               in out\<lparr>created := c # created out\<rparr>))"

text \<open>
  The envelope of a list route: \<open>{success: true, data: response.data[field] || [],
  total: response.data.total || 0}\<close>, with the route's further properties after them.
\<close>

definition list_envelope :: "jsstring \<Rightarrow> props \<Rightarrow> jsval \<Rightarrow> js_error + http_reply" where
  "list_envelope field extra d =
     and_then (get_prop d field) (\<lambda>items.
     and_then (get_prop d (js ''total'')) (\<lambda>total.
       Inr (send 200
              ([(js ''success'', JBool True),
                (js ''data'', js_or items (JArr [])),
                (js ''total'', js_or total (JNum (Fin 0)))] @ extra))))"

subsection \<open>\<open>GET /api/customers/search/email/:email\<close>\<close>

definition invalid_email :: http_reply where
  "invalid_email =
     send 400 [(js ''error'', JStr (js ''Invalid email address'')),
               (js ''message'', JStr (js ''Please provide a valid email address''))]"

definition searchByEmail_try ::
  "provider \<Rightarrow> request \<Rightarrow> (js_error + http_reply) \<times> outbound list" where
  "searchByEmail_try provider req =
     (case param_email req of
        None \<Rightarrow> (Inr invalid_email, [])
      | Some email \<Rightarrow>
          if email = [] \<or> \<not> isValidEmail email then (Inr invalid_email, [])
          else (let r = client_get provider (fieldRoutesClient req) (js ''/customers'')
                          [(js ''email'', JStr email), (js ''limit'', JNum (Fin 10))]
                in (and_then (fst r) (list_envelope (js ''customers'') []), snd r)))"

definition searchByEmail :: "env \<Rightarrow> provider \<Rightarrow> request \<Rightarrow> outcome" where
  "searchByEmail e provider req =
     validateCredentials e req (\<lambda>req.
       caught e (js ''Failed to search customers by email'') (searchByEmail_try provider req))"

subsection \<open>\<open>GET /api/customers/search/phone/:phone\<close>\<close>

definition phone_required :: http_reply where
  "phone_required =
     send 400 [(js ''error'', JStr (js ''Phone number required'')),
               (js ''message'', JStr (js ''Please provide a phone number''))]"

definition searchByPhone_try ::
  "provider \<Rightarrow> request \<Rightarrow> (js_error + http_reply) \<times> outbound list" where
  "searchByPhone_try provider req =
     (case param_phone req of
        None \<Rightarrow> (Inr phone_required, [])
      | Some phone \<Rightarrow>
          if phone = [] then (Inr phone_required, [])
          else (let r = client_get provider (fieldRoutesClient req) (js ''/customers'')
                          [(js ''phone'', JStr (cleanPhone phone)), (js ''limit'', JNum (Fin 10))]
                in (and_then (fst r) (list_envelope (js ''customers'') []), snd r)))"

definition searchByPhone :: "env \<Rightarrow> provider \<Rightarrow> request \<Rightarrow> outcome" where
  "searchByPhone e provider req =
     validateCredentials e req (\<lambda>req.
       caught e (js ''Failed to search customers by phone'') (searchByPhone_try provider req))"

subsection \<open>\<open>GET /api/customers/search\<close>\<close>

definition invalid_query :: http_reply where
  "invalid_query =
     send 400 [(js ''error'', JStr (js ''Invalid search query'')),
               (js ''message'', JStr (js ''Search query must be at least 2 characters long''))]"

definition searchCustomers_try ::
  "provider \<Rightarrow> request \<Rightarrow> (js_error + http_reply) \<times> outbound list" where
  "searchCustomers_try provider req =
     (let limit = or_default (query_limit req) (Fin 10);
          offset = or_default (query_offset req) (Fin 0)
      in case query_q req of
           None \<Rightarrow> (Inr invalid_query, [])
         | Some q \<Rightarrow>
             if q = [] \<or> length (trim q) < 2 then (Inr invalid_query, [])
             else (let r = client_get provider (fieldRoutesClient req) (js ''/customers/search'')
                             [(js ''q'', JStr (trim q)),
                              (js ''limit'', JNum (Math_min limit (Fin 50))),
                              (js ''offset'', JNum (Math_max offset (Fin 0)))]
                   in (and_then (fst r)
                         (list_envelope (js ''customers'') [(js ''query'', JStr (trim q))]),
                       snd r)))"

definition searchCustomers :: "env \<Rightarrow> provider \<Rightarrow> request \<Rightarrow> outcome" where
  "searchCustomers e provider req =
     validateCredentials e req (\<lambda>req.
       caught e (js ''Failed to search customers'') (searchCustomers_try provider req))"

subsection \<open>\<open>GET /api/customers/:id\<close>\<close>

definition invalid_customer_id :: http_reply where
  "invalid_customer_id =
     send 400 [(js ''error'', JStr (js ''Invalid customer ID'')),
               (js ''message'', JStr (js ''Please provide a valid customer ID''))]"

definition customer_not_found :: http_reply where
  "customer_not_found =
     send 404 [(js ''error'', JStr (js ''Customer not found'')),
               (js ''message'', JStr (js ''No customer found with the provided ID''))]"

text \<open>\<open>error.response?.status === n\<close>\<close>

definition response_status_is :: "js_error \<Rightarrow> nat \<Rightarrow> bool" where
  "response_status_is error n =
     (case response error of None \<Rightarrow> False | Some r \<Rightarrow> status r = n)"

text \<open>The \<open>catch\<close> of the two routes that answer a provider 404 themselves.\<close>

definition caught_not_found ::
  "env \<Rightarrow> jsstring \<Rightarrow> (js_error + http_reply) \<times> outbound list \<Rightarrow> outcome" where
  "caught_not_found e defaultMessage r =
     (case fst r of
        Inr rep \<Rightarrow> \<lparr>reply = rep, created = [], calls = snd r\<rparr>
      | Inl error \<Rightarrow>
          if response_status_is error 404
          then \<lparr>reply = customer_not_found, created = [], calls = snd r\<rparr>
          else \<lparr>reply = handleApiError e error defaultMessage, created = [], calls = snd r\<rparr>)"

definition getCustomer_try ::
  "provider \<Rightarrow> request \<Rightarrow> (js_error + http_reply) \<times> outbound list" where
  "getCustomer_try provider req =
     (case param_id req of
        None \<Rightarrow> (Inr invalid_customer_id, [])
      | Some i \<Rightarrow>
          if i = [] \<or> \<not> isValidCustomerId i then (Inr invalid_customer_id, [])
          else (let r = client_get provider (fieldRoutesClient req) (js ''/customers/'' @ i) []
                in (and_then (fst r) (\<lambda>d.
                      Inr (send 200 [(js ''success'', JBool True), (js ''data'', d)])),
                    snd r)))"

definition getCustomer :: "env \<Rightarrow> provider \<Rightarrow> request \<Rightarrow> outcome" where
  "getCustomer e provider req =
     validateCredentials e req (\<lambda>req.
       caught_not_found e (js ''Failed to fetch customer'') (getCustomer_try provider req))"

subsection \<open>\<open>GET /api/customers/:id/services\<close>\<close>

definition getServices_try ::
  "provider \<Rightarrow> request \<Rightarrow> (js_error + http_reply) \<times> outbound list" where
  "getServices_try provider req =
     (let limit = or_default (query_limit req) (Fin 20);
          offset = or_default (query_offset req) (Fin 0)
      in case param_id req of
           None \<Rightarrow> (Inr invalid_customer_id, [])
         | Some i \<Rightarrow>
             if i = [] \<or> \<not> isValidCustomerId i then (Inr invalid_customer_id, [])
             else (let r = client_get provider (fieldRoutesClient req)
                             (js ''/customers/'' @ i @ js ''/services'')
                             [(js ''limit'', JNum (Math_min limit (Fin 100))),
                              (js ''offset'', JNum (Math_max offset (Fin 0))),
                              (js ''sort'', JStr (js ''date_desc''))]
                   in (and_then (fst r) (list_envelope (js ''services'') []), snd r)))"

definition getServices :: "env \<Rightarrow> provider \<Rightarrow> request \<Rightarrow> outcome" where
  "getServices e provider req =
     validateCredentials e req (\<lambda>req.
       caught_not_found e (js ''Failed to fetch service history'')
         (getServices_try provider req))"

subsection \<open>\<open>GET /api/customers/:id/appointments\<close>\<close>

definition getAppointments_try ::
  "provider \<Rightarrow> request \<Rightarrow> (js_error + http_reply) \<times> outbound list" where
  "getAppointments_try provider req =
     (let st = or_default (query_status req) (js ''all'');
          limit = or_default (query_limit req) (Fin 10)
      in case param_id req of
           None \<Rightarrow> (Inr invalid_customer_id, [])
         | Some i \<Rightarrow>
             if i = [] \<or> \<not> isValidCustomerId i then (Inr invalid_customer_id, [])
             else (let ps = [(js ''customer_id'', JStr i),
                             (js ''limit'', JNum (Math_min limit (Fin 50)))]
                             @ (if st \<noteq> js ''all'' then [(js ''status'', JStr st)] else []);
                       r = client_get provider (fieldRoutesClient req) (js ''/appointments'') ps
                   in (and_then (fst r) (list_envelope (js ''appointments'') []), snd r)))"

definition getAppointments :: "env \<Rightarrow> provider \<Rightarrow> request \<Rightarrow> outcome" where
  "getAppointments e provider req =
     validateCredentials e req (\<lambda>req.
       caught e (js ''Failed to fetch appointments'') (getAppointments_try provider req))"

subsection \<open>\<open>POST /api/test-credentials\<close>\<close>

definition missing_body_credentials :: http_reply where
  "missing_body_credentials =
     send 400 [(js ''error'', JStr (js ''Missing credentials'')),
               (js ''message'', JStr (js ''API key and secret are required''))]"

definition invalid_credentials :: http_reply where
  "invalid_credentials =
     send 401 [(js ''error'', JStr (js ''Invalid credentials'')),
               (js ''message'', JStr (js ''The provided API credentials are invalid''))]"

definition testCredentials_try ::
  "env \<Rightarrow> provider \<Rightarrow> request \<Rightarrow> (js_error + http_reply) \<times> client list \<times> outbound list" where
  "testCredentials_try e provider req =
     (case destructure (body req) (js ''apiKey'') (js ''req.body'') of
        Inl error \<Rightarrow> (Inl error, [], [])
      | Inr b \<Rightarrow>
          (let apiKey = own_prop b (js ''apiKey'');
               apiSecret = own_prop b (js ''apiSecret'');
               baseUrl = own_prop b (js ''baseUrl'')
           in if \<not> truthy apiKey \<or> \<not> truthy apiSecret
              then (Inr missing_body_credentials, [], [])
              else (let c = createFieldRoutesClient e apiKey apiSecret;
                        testClient = (if truthy baseUrl then c\<lparr>baseURL := baseUrl\<rparr> else c);
                        r = client_get provider (Some testClient) (js ''/customers'')
                              [(js ''limit'', JNum (Fin 1))]
                    in (and_then (fst r) (\<lambda>d.
                          Inr (send 200
                                 [(js ''success'', JBool True),
                                  (js ''message'', JStr (js ''Credentials are valid'')),
                                  (js ''data'',
                                     JObj [(js ''connected'', JBool True),
                                           (js ''baseUrl'', baseURL testClient)])])),
                        [c], snd r))))"

definition testCredentials :: "env \<Rightarrow> provider \<Rightarrow> request \<Rightarrow> outcome" where
  "testCredentials e provider req =
     (case testCredentials_try e provider req of
        (Inr rep, cs, os) \<Rightarrow> \<lparr>reply = rep, created = cs, calls = os\<rparr>
      | (Inl error, cs, os) \<Rightarrow>
          if response_status_is error 401 \<or> response_status_is error 403
          then \<lparr>reply = invalid_credentials, created = cs, calls = os\<rparr>
          else \<lparr>reply = handleApiError e error (js ''Failed to test credentials''),
                created = cs, calls = os\<rparr>)"

section \<open>Notions used in the statements\<close>

text \<open>Both credential headers pass the test \<open>!apiKey || !apiSecret\<close>.\<close>

definition authed :: "request \<Rightarrow> bool" where
  "authed req = (truthy (opt_str (hdr_apiKey req)) \<and> truthy (opt_str (hdr_apiSecret req)))"

text \<open>The request as the middleware hands it to the handler.\<close>

definition attach :: "env \<Rightarrow> request \<Rightarrow> request" where
  "attach e req = req\<lparr>fieldRoutesClient :=
     Some (createFieldRoutesClient e (opt_str (hdr_apiKey req)) (opt_str (hdr_apiSecret req)))\<rparr>"

text \<open>The \<open>:id\<close> parameter is absent or fails \<open>isValidCustomerId\<close>.\<close>

definition bad_id :: "request \<Rightarrow> bool" where
  "bad_id req = (case param_id req of None \<Rightarrow> True | Some i \<Rightarrow> \<not> isValidCustomerId i)"

text \<open>The \<open>:email\<close> parameter is absent or fails \<open>isValidEmail\<close>.\<close>

definition bad_email :: "request \<Rightarrow> bool" where
  "bad_email req = (case param_email req of None \<Rightarrow> True | Some s \<Rightarrow> \<not> isValidEmail s)"

text \<open>A property of the body of the reply.\<close>

definition reply_field :: "outcome \<Rightarrow> string \<Rightarrow> jsval" where
  "reply_field out k = own_prop (json (reply out)) (js k)"

section \<open>Concrete inputs\<close>

definition example_env :: env where
  "example_env = \<lparr>FIELDROUTES_API_URL = None, NODE_ENV = Some (js ''production'')\<rparr>"

definition dev_env :: env where
  "dev_env = \<lparr>FIELDROUTES_API_URL = None, NODE_ENV = Some (js ''development'')\<rparr>"

definition example_request :: request where
  "example_request =
     \<lparr>hdr_apiKey = Some (js ''key''), hdr_apiSecret = Some (js ''secret''),
      param_email = Some (js ''a@b.co''), param_phone = Some (js ''(555) 123-4567''),
      param_id = Some (js ''c-7''), query_q = Some (js '' smith ''),
      query_limit = Some (Fin 500), query_offset = Some (Fin (- 3)),
      query_status = None,
      body = JObj [(js ''apiKey'', JStr (js ''key'')), (js ''apiSecret'', JStr (js ''secret''))],
      fieldRoutesClient = None\<rparr>"

definition example_client :: client where
  "example_client =
     \<lparr>baseURL = JStr (js ''https://api.fieldroutes.com/v1''), timeout = 10000,
      bearer = JStr (js ''key''), X_API_Secret = JStr (js ''secret'')\<rparr>"

definition sent_headers :: "(jsstring \<times> jsstring) list" where
  "sent_headers = [(js ''apiKey'', js ''key''), (js ''apiSecret'', js ''secret'')]"

definition status_zero_error :: js_error where
  "status_zero_error =
     \<lparr>message = JStr [], response = Some \<lparr>status = 0, data = JStr (js ''gone'')\<rparr>\<rparr>"

definition provider_finds :: "jsval \<Rightarrow> provider" where
  "provider_finds d call = Fulfilled d"

definition provider_rejects :: "nat \<Rightarrow> provider" where
  "provider_rejects n call =
     Rejected \<lparr>message = JStr (js ''Request failed''),
               response = Some \<lparr>status = n, data = JNull\<rparr>\<rparr>"

definition network_error :: js_error where
  "network_error = \<lparr>message = JStr (js ''timeout of 10000ms exceeded''), response = None\<rparr>"

definition provider_error :: js_error where
  "provider_error =
     \<lparr>message = JStr (js ''Request failed with status code 503''),
      response = Some \<lparr>status = 503, data = JObj [(js ''message'', JStr (js ''down''))]\<rparr>\<rparr>"

definition empty_message_error :: js_error where
  "empty_message_error =
     \<lparr>message = JStr (js ''Request failed with status code 500''),
      response = Some \<lparr>status = 500, data = JObj [(js ''message'', JStr [])]\<rparr>\<rparr>"

definition bad_id_request :: request where
  "bad_id_request = example_request\<lparr>param_id := Some (js ''a b'')\<rparr>"

definition bad_email_request :: request where
  "bad_email_request = example_request\<lparr>param_email := Some (js ''a@b.c@d'')\<rparr>"

definition three_customers :: props where
  "three_customers =
     [(js ''customers'', JArr [JStr (js ''x''), JStr (js ''y''), JStr (js ''z'')]),
      (js ''total'', JNum (Fin 3))]"

definition email_call :: outbound where
  "email_call =
     \<lparr>via = example_client, url = js ''/customers'',
      params = [(js ''email'', JStr (js ''a@b.co'')), (js ''limit'', JNum (Fin 10))]\<rparr>"

definition phone_call :: outbound where
  "phone_call =
     \<lparr>via = example_client, url = js ''/customers'',
      params = [(js ''phone'', JStr (js ''5551234567'')), (js ''limit'', JNum (Fin 10))]\<rparr>"

definition search_call :: outbound where
  "search_call =
     \<lparr>via = example_client, url = js ''/customers/search'',
      params = [(js ''q'', JStr (js ''smith'')), (js ''limit'', JNum (Fin 50)),
                (js ''offset'', JNum (Fin 0))]\<rparr>"

definition services_call :: outbound where
  "services_call =
     \<lparr>via = example_client, url = js ''/customers/c-7/services'',
      params = [(js ''limit'', JNum (Fin 100)), (js ''offset'', JNum (Fin 0)),
                (js ''sort'', JStr (js ''date_desc''))]\<rparr>"

definition appointments_call :: outbound where
  "appointments_call =
     \<lparr>via = example_client, url = js ''/appointments'',
      params = [(js ''customer_id'', JStr (js ''c-7'')), (js ''limit'', JNum (Fin 50))]\<rparr>"

section \<open>Correctness of the pattern matcher\<close>

lemma nullable_lang: "nullable r \<longleftrightarrow> [] \<in> lang r"
  by (induction r) (auto simp: conc_def intro: star.star_empty)

lemma star_cons_iff:
  "c # w \<in> star A \<longleftrightarrow> (\<exists>u v. w = u @ v \<and> c # u \<in> A \<and> v \<in> star A)"
proof
  assume "c # w \<in> star A"
  then show "\<exists>u v. w = u @ v \<and> c # u \<in> A \<and> v \<in> star A"
  proof (induction "c # w" arbitrary: w rule: star.induct)
    case (star_step u v)
    show ?case
    proof (cases u)
      case Nil
      with star_step show ?thesis by simp
    next
      case (Cons a u')
      with star_step show ?thesis by auto
    qed
  qed
next
  assume "\<exists>u v. w = u @ v \<and> c # u \<in> A \<and> v \<in> star A"
  then obtain u v where "w = u @ v" "c # u \<in> A" "v \<in> star A" by blast
  then have "(c # u) @ v \<in> star A" by (intro star.star_step)
  with \<open>w = u @ v\<close> show "c # w \<in> star A" by simp
qed

lemma conc_cons_iff:
  "c # w \<in> conc A B \<longleftrightarrow>
     ([] \<in> A \<and> c # w \<in> B) \<or> (\<exists>u v. w = u @ v \<and> c # u \<in> A \<and> v \<in> B)"
  by (auto simp: conc_def Cons_eq_append_conv)

lemma deriv_lang: "w \<in> lang (deriv c r) \<longleftrightarrow> c # w \<in> lang r"
proof (induction r arbitrary: w)
  case (Cat r s)
  then show ?case
    by (auto simp: conc_cons_iff nullable_lang) (auto simp: conc_def)
next
  case (Star r)
  then show ?case
    by (auto simp: star_cons_iff conc_def)
qed auto

lemma rx_test_lang: "rx_test r s \<longleftrightarrow> s \<in> lang r"
  by (induction s arbitrary: r) (auto simp: nullable_lang deriv_lang)

lemma star_cls: "star {[c] | c. p c} = {s. \<forall>c \<in> set s. p c}"
proof (intro equalityI subsetI)
  fix s assume "s \<in> star {[c] | c. p c}"
  then show "s \<in> {s. \<forall>c \<in> set s. p c}"
    by (induction rule: star.induct) auto
next
  fix s assume "s \<in> {s. \<forall>c \<in> set s. p c}"
  then have "\<forall>c \<in> set s. p c" by simp
  then show "s \<in> star {[c] | c. p c}"
  proof (induction s)
    case Nil
    show ?case by (rule star.star_empty)
  next
    case (Cons a s)
    then have "[a] \<in> {[c] | c. p c}" "s \<in> star {[c] | c. p c}" by auto
    then have "[a] @ s \<in> star {[c] | c. p c}" by (rule star.star_step)
    then show ?case by simp
  qed
qed

lemma in_conc: "w \<in> conc A B \<longleftrightarrow> (\<exists>u v. w = u @ v \<and> u \<in> A \<and> v \<in> B)"
  by (auto simp: conc_def)

lemma concE:
  assumes "w \<in> conc A B"
  obtains u v where "w = u @ v" "u \<in> A" "v \<in> B"
  using assms unfolding in_conc by blast

lemma lang_Plus_Cls: "lang (Plus (Cls p)) = {s. s \<noteq> [] \<and> (\<forall>c \<in> set s. p c)}"
proof (intro equalityI subsetI)
  fix s assume "s \<in> lang (Plus (Cls p))"
  then obtain c v where "s = [c] @ v" "p c" "\<forall>x \<in> set v. p x"
    by (auto simp: Plus_def star_cls in_conc)
  then show "s \<in> {s. s \<noteq> [] \<and> (\<forall>c \<in> set s. p c)}" by simp
next
  fix s assume "s \<in> {s. s \<noteq> [] \<and> (\<forall>c \<in> set s. p c)}"
  then obtain x xs where s: "s = x # xs" and "p x" and "\<forall>c \<in> set xs. p c"
    by (cases s) auto
  then have "[x] \<in> lang (Cls p)" and "xs \<in> star (lang (Cls p))"
    by (simp_all add: star_cls)
  then have "[x] @ xs \<in> conc (lang (Cls p)) (star (lang (Cls p)))"
    unfolding in_conc by blast
  with s show "s \<in> lang (Plus (Cls p))" by (simp add: Plus_def)
qed

lemma lang_Chr: "lang (Chr ch) = {[of_char ch]}"
  by (auto simp: Chr_def)

lemma isValidEmail_lang:
  "isValidEmail s \<longleftrightarrow>
     s \<in> conc {s. s \<noteq> [] \<and> (\<forall>c \<in> set s. not_space_at c)}
          (conc {[of_char CHR ''@'']}
            (conc {s. s \<noteq> [] \<and> (\<forall>c \<in> set s. not_space_at c)}
              (conc {[of_char CHR ''.'']} {s. s \<noteq> [] \<and> (\<forall>c \<in> set s. not_space_at c)})))"
  unfolding isValidEmail_def rx_test_lang emailRegex_def lang.simps(5) lang_Plus_Cls lang_Chr
  by (rule refl)

lemma isValidEmail_iff:
  "isValidEmail s \<longleftrightarrow>
     (\<exists>a b c. s = a @ js ''@'' @ b @ js ''.'' @ c
        \<and> a \<noteq> [] \<and> b \<noteq> [] \<and> c \<noteq> []
        \<and> (\<forall>x \<in> set (a @ b @ c). \<not> is_space x \<and> x \<noteq> of_char CHR ''@''))"
  (is "?L \<longleftrightarrow> ?R")
proof
  assume ?L
  let ?P = "{s. s \<noteq> [] \<and> (\<forall>c \<in> set s. not_space_at c)}"
  from \<open>?L\<close> obtain a v1 where 1: "s = a @ v1" "a \<in> ?P"
    and v1: "v1 \<in> conc {[of_char CHR ''@'']} (conc ?P (conc {[of_char CHR ''.'']} ?P))"
    unfolding isValidEmail_lang by (rule concE)
  from v1 obtain v2 where 2: "v1 = [of_char CHR ''@''] @ v2"
    and v2: "v2 \<in> conc ?P (conc {[of_char CHR ''.'']} ?P)"
    by (rule concE) simp
  from v2 obtain b v3 where 3: "v2 = b @ v3" "b \<in> ?P"
    and v3: "v3 \<in> conc {[of_char CHR ''.'']} ?P"
    by (rule concE)
  from v3 obtain c where 4: "v3 = [of_char CHR ''.''] @ c" "c \<in> ?P"
    by (rule concE) simp
  from 1 2 3 4 have "s = a @ js ''@'' @ b @ js ''.'' @ c"
    by (simp add: js_def)
  moreover from 1 3 4 have "a \<noteq> []" "b \<noteq> []" "c \<noteq> []"
    "\<forall>x \<in> set (a @ b @ c). \<not> is_space x \<and> x \<noteq> of_char CHR ''@''"
    by (auto simp: not_space_at_def)
  ultimately show ?R by blast
next
  assume ?R
  then obtain a b c where s: "s = a @ js ''@'' @ b @ js ''.'' @ c"
    and ne: "a \<noteq> []" "b \<noteq> []" "c \<noteq> []"
    and cl: "\<forall>x \<in> set (a @ b @ c). \<not> is_space x \<and> x \<noteq> of_char CHR ''@''"
    by blast
  let ?P = "{s. s \<noteq> [] \<and> (\<forall>c \<in> set s. not_space_at c)}"
  from ne cl have a: "a \<in> ?P" and b: "b \<in> ?P" and c: "c \<in> ?P"
    by (auto simp: not_space_at_def)
  from c have "[of_char CHR ''.''] @ c \<in> conc {[of_char CHR ''.'']} ?P"
    unfolding in_conc by blast
  with b have "b @ [of_char CHR ''.''] @ c \<in> conc ?P (conc {[of_char CHR ''.'']} ?P)"
    unfolding in_conc by blast
  then have "[of_char CHR ''@''] @ b @ [of_char CHR ''.''] @ c
      \<in> conc {[of_char CHR ''@'']} (conc ?P (conc {[of_char CHR ''.'']} ?P))"
    unfolding in_conc by blast
  with a have "a @ [of_char CHR ''@''] @ b @ [of_char CHR ''.''] @ c
      \<in> conc ?P (conc {[of_char CHR ''@'']} (conc ?P (conc {[of_char CHR ''.'']} ?P)))"
    unfolding in_conc by blast
  moreover have "s = a @ [of_char CHR ''@''] @ b @ [of_char CHR ''.''] @ c"
    using s by (simp add: js_def)
  ultimately show ?L unfolding isValidEmail_lang by simp
qed

section \<open>Projections of the handlers\<close>

lemma replace_class_filter: "replace_class p [] s = filter (\<lambda>c. \<not> p c) s"
  by (induction s) auto

lemma cleanPhone_filter: "cleanPhone s = filter is_digit s"
  by (simp add: cleanPhone_def replace_class_filter)

lemma client_get_Some:
  "client_get provider (Some cl) u ps =
     (case provider \<lparr>via = cl, url = u, params = ps\<rparr> of Fulfilled d \<Rightarrow> Inr d | Rejected err \<Rightarrow> Inl err,
      [\<lparr>via = cl, url = u, params = ps\<rparr>])"
  by (simp add: client_get_def Let_def)

lemma calls_validateCredentials:
  "calls (validateCredentials e req next) = (if authed req then calls (next (attach e req)) else [])"
  by (simp add: validateCredentials_def authed_def attach_def Let_def)

lemma reply_validateCredentials:
  "reply (validateCredentials e req next) =
     (if authed req then reply (next (attach e req)) else missing_credentials)"
  by (simp add: validateCredentials_def authed_def attach_def Let_def)

lemma calls_caught_not_found: "calls (caught_not_found e m r) = snd r"
  by (simp add: caught_not_found_def split: sum.splits)

lemma calls_caught: "calls (caught e m r) = snd r"
  by (simp add: caught_def split: sum.splits)

lemma reply_caught_not_found_404:
  "fst r = Inl err \<Longrightarrow> response err = Some x \<Longrightarrow> status x = 404 \<Longrightarrow>
   reply (caught_not_found e m r) = customer_not_found"
  by (simp add: caught_not_found_def response_status_is_def)

lemma getCustomer_try_rejected:
  assumes "snd (getCustomer_try provider req) = [c]" "provider c = Rejected err"
  shows "fst (getCustomer_try provider req) = Inl err"
proof (cases "fieldRoutesClient req")
  case None
  with assms show ?thesis
    by (simp add: getCustomer_try_def client_get_def split: option.splits if_splits)
next
  case (Some cl)
  with assms show ?thesis
    by (auto simp: getCustomer_try_def client_get_Some split: option.splits if_splits)
qed

lemma getServices_try_rejected:
  assumes "snd (getServices_try provider req) = [c]" "provider c = Rejected err"
  shows "fst (getServices_try provider req) = Inl err"
proof (cases "fieldRoutesClient req")
  case None
  with assms show ?thesis
    by (simp add: getServices_try_def client_get_def Let_def split: option.splits if_splits)
next
  case (Some cl)
  with assms show ?thesis
    by (auto simp: getServices_try_def client_get_Some Let_def split: option.splits if_splits)
qed

lemma testCredentials_try_rejected:
  assumes "snd (snd (testCredentials_try e provider req)) = [c]" "provider c = Rejected err"
  shows "fst (testCredentials_try e provider req) = Inl err"
  using assms
  by (cases "destructure (body req) (js ''apiKey'') (js ''req.body'')")
     (auto simp: testCredentials_try_def client_get_Some Let_def split: if_splits)

lemma testCredentials_proj:
  "calls (testCredentials e provider req) = snd (snd (testCredentials_try e provider req))"
  by (simp add: testCredentials_def split: prod.splits sum.splits)

lemma js_or_defined: "js_or x (JStr d) \<noteq> JUndefined"
  by (cases x) (auto simp: js_or_def)

lemma keys_distinct:
  "js ''error'' \<noteq> js ''message''" "js ''error'' \<noteq> js ''details''"
  "js ''message'' \<noteq> js ''details''" "js ''message'' \<noteq> js ''error''"
  "js ''details'' \<noteq> js ''error''" "js ''details'' \<noteq> js ''message''"
  by (simp_all add: js_def)

lemma handleApiError_json:
  "json (handleApiError e error d) =
     JObj ([(js ''error'', JStr (js ''API Error'')),
            (js ''message'', js_or (js_or (reported_message error) (message error)) (JStr d))]
           @ (if NODE_ENV e = Some (js ''development'') \<and> reported_data error \<noteq> JUndefined
              then [(js ''details'', reported_data error)] else []))"
  by (simp add: handleApiError_def send_def Let_def js_or_defined)

lemma handleApiError_status:
  "statusCode (handleApiError e error d) =
     (case response error of None \<Rightarrow> 500 | Some r \<Rightarrow> if status r = 0 then 500 else status r)"
  by (simp add: handleApiError_def send_def Let_def)

lemma param_attach [simp]:
  "param_phone (attach e req) = param_phone req"
  "param_email (attach e req) = param_email req"
  "param_id (attach e req) = param_id req"
  "query_q (attach e req) = query_q req"
  "query_limit (attach e req) = query_limit req"
  "query_offset (attach e req) = query_offset req"
  "query_status (attach e req) = query_status req"
  by (simp_all add: attach_def)

lemma bad_attach [simp]:
  "bad_id (attach e req) = bad_id req" "bad_email (attach e req) = bad_email req"
  by (simp_all add: bad_id_def bad_email_def)

lemma reply_caught_Inr: "fst r = Inr rep \<Longrightarrow> reply (caught e m r) = rep"
  by (simp add: caught_def)

lemma reply_caught_not_found_Inr: "fst r = Inr rep \<Longrightarrow> reply (caught_not_found e m r) = rep"
  by (simp add: caught_not_found_def)

section \<open>The character class of customer identifiers\<close>

lemma alphabet_codes:
  "map unat (js ''abcdefghijklmnopqrstuvwxyzABCDEFGHIJKLMNOPQRSTUVWXYZ0123456789-_'' :: jsstring)
   = [97..<123] @ [65..<91] @ [48..<58] @ [45, 95]"
  by code_simp

lemma id_class_unat:
  "id_class c \<longleftrightarrow>
      (97 \<le> unat c \<and> unat c < 123) \<or> (65 \<le> unat c \<and> unat c < 91)
      \<or> (48 \<le> unat c \<and> unat c < 58) \<or> unat c = 45 \<or> unat c = 95"
proof -
  have e: "c = 45 \<longleftrightarrow> unat c = 45" "c = 95 \<longleftrightarrow> unat c = 95"
    by (simp_all add: word_unat_eq_iff)
  show ?thesis
    unfolding id_class_def by (simp add: word_le_nat_alt e) linarith
qed

lemma mem_unat_iff: "c \<in> set xs \<longleftrightarrow> unat c \<in> set (map unat xs)" for c :: jschar
proof
  assume "c \<in> set xs"
  then show "unat c \<in> set (map unat xs)" by simp
next
  assume "unat c \<in> set (map unat xs)"
  then obtain x where "x \<in> set xs" "unat c = unat x" by auto
  then have "c = x" by (simp only: word_unat_eq_iff)
  with \<open>x \<in> set xs\<close> show "c \<in> set xs" by simp
qed

lemma id_class_iff:
  "id_class c \<longleftrightarrow>
     c \<in> set (js ''abcdefghijklmnopqrstuvwxyzABCDEFGHIJKLMNOPQRSTUVWXYZ0123456789-_'')"
proof -
  have "c \<in> set (js ''abcdefghijklmnopqrstuvwxyzABCDEFGHIJKLMNOPQRSTUVWXYZ0123456789-_'')
      \<longleftrightarrow> unat c \<in> set ([97..<123] @ [65..<91] @ [48..<58] @ [45, 95])"
    using mem_unat_iff [of c "js ''abcdefghijklmnopqrstuvwxyzABCDEFGHIJKLMNOPQRSTUVWXYZ0123456789-_''"]
    by (simp only: alphabet_codes)
  also have "\<dots> \<longleftrightarrow> (97 \<le> unat c \<and> unat c < 123) \<or> (65 \<le> unat c \<and> unat c < 91)
      \<or> (48 \<le> unat c \<and> unat c < 58) \<or> unat c = 45 \<or> unat c = 95"
    by (simp only: set_append set_upt Un_iff atLeastLessThan_iff list.set insert_iff empty_iff
        simp_thms disj_assoc)
  finally show ?thesis by (simp only: id_class_unat)
qed

lemma isValidCustomerId_iff:
  "isValidCustomerId i \<longleftrightarrow>
     (\<forall>c \<in> set i.
        c \<in> set (js ''abcdefghijklmnopqrstuvwxyzABCDEFGHIJKLMNOPQRSTUVWXYZ0123456789-_''))
     \<and> 1 \<le> length i \<and> length i \<le> 99"
proof -
  have "rx_test (Plus (Cls id_class)) i \<longleftrightarrow> i \<noteq> [] \<and> (\<forall>c \<in> set i. id_class c)"
    by (simp add: rx_test_lang lang_Plus_Cls)
  then show ?thesis
    unfolding isValidCustomerId_def id_class_iff by (cases i) auto
qed

section \<open>Rejected input never reaches the provider\<close>

lemma getCustomer_try_bad: "bad_id req \<Longrightarrow> getCustomer_try provider req = (Inr invalid_customer_id, [])"
  by (auto simp: bad_id_def getCustomer_try_def split: option.splits)

lemma getServices_try_bad: "bad_id req \<Longrightarrow> getServices_try provider req = (Inr invalid_customer_id, [])"
  by (auto simp: bad_id_def getServices_try_def Let_def split: option.splits)

lemma getAppointments_try_bad:
  "bad_id req \<Longrightarrow> getAppointments_try provider req = (Inr invalid_customer_id, [])"
  by (auto simp: bad_id_def getAppointments_try_def Let_def split: option.splits)

lemma searchByEmail_try_bad:
  "bad_email req \<Longrightarrow> searchByEmail_try provider req = (Inr invalid_email, [])"
  by (auto simp: bad_email_def searchByEmail_try_def Let_def split: option.splits)

section \<open>The envelope of the list routes\<close>

lemma list_envelope_JObj:
  "list_envelope field extra (JObj ps) =
     Inr (send 200
            ([(js ''success'', JBool True),
              (js ''data'', js_or (own_prop (JObj ps) field) (JArr [])),
              (js ''total'', js_or (own_prop (JObj ps) (js ''total'')) (JNum (Fin 0)))] @ extra))"
  by (simp add: list_envelope_def)

lemma map_of_filter_defined:
  "map_of ps k = Some v \<Longrightarrow> v \<noteq> JUndefined \<Longrightarrow>
   map_of (filter (\<lambda>kv. snd kv \<noteq> JUndefined) ps) k = Some v"
  by (induction ps) (auto split: if_splits)

lemma own_prop_send:
  "map_of ps k = Some v \<Longrightarrow> v \<noteq> JUndefined \<Longrightarrow> own_prop (json (send st ps)) k = v"
  by (simp add: send_def map_of_filter_defined)

lemma js_or_JArr_defined: "js_or x (JArr ys) \<noteq> JUndefined"
  by (cases x) (auto simp: js_or_def)

lemma js_or_JNum_defined: "js_or x (JNum n) \<noteq> JUndefined"
  by (cases x) (auto simp: js_or_def)

lemma envelope_fields:
  "own_prop (json (send 200
            ([(js ''success'', JBool True), (js ''data'', js_or a (JArr [])),
              (js ''total'', js_or t (JNum (Fin 0)))] @ extra))) (js ''success'') = JBool True"
  "own_prop (json (send 200
            ([(js ''success'', JBool True), (js ''data'', js_or a (JArr [])),
              (js ''total'', js_or t (JNum (Fin 0)))] @ extra))) (js ''data'') = js_or a (JArr [])"
  "own_prop (json (send 200
            ([(js ''success'', JBool True), (js ''data'', js_or a (JArr [])),
              (js ''total'', js_or t (JNum (Fin 0)))] @ extra))) (js ''total'')
     = js_or t (JNum (Fin 0))"
proof -
  have k: "js ''success'' \<noteq> js ''data''" "js ''success'' \<noteq> js ''total''"
    "js ''data'' \<noteq> js ''total''"
    by (simp_all add: js_def)
  show "own_prop (json (send 200
            ([(js ''success'', JBool True), (js ''data'', js_or a (JArr [])),
              (js ''total'', js_or t (JNum (Fin 0)))] @ extra))) (js ''success'') = JBool True"
    by (rule own_prop_send) simp_all
  show "own_prop (json (send 200
            ([(js ''success'', JBool True), (js ''data'', js_or a (JArr [])),
              (js ''total'', js_or t (JNum (Fin 0)))] @ extra))) (js ''data'') = js_or a (JArr [])"
    by (rule own_prop_send) (use k in \<open>simp_all add: js_or_JArr_defined\<close>)
  show "own_prop (json (send 200
            ([(js ''success'', JBool True), (js ''data'', js_or a (JArr [])),
              (js ''total'', js_or t (JNum (Fin 0)))] @ extra))) (js ''total'')
     = js_or t (JNum (Fin 0))"
    by (rule own_prop_send) (use k in \<open>simp_all add: js_or_JNum_defined\<close>)
qed

lemma searchByEmail_try_fulfilled:
  assumes "snd (searchByEmail_try provider req) = [c]" "provider c = Fulfilled d"
  shows "fst (searchByEmail_try provider req) = list_envelope (js ''customers'') [] d"
proof (cases "fieldRoutesClient req")
  case None
  with assms show ?thesis
    by (simp add: searchByEmail_try_def client_get_def Let_def split: option.splits if_splits)
next
  case (Some cl)
  with assms show ?thesis
    by (auto simp: searchByEmail_try_def client_get_Some Let_def split: option.splits if_splits)
qed

lemma searchByPhone_try_fulfilled:
  assumes "snd (searchByPhone_try provider req) = [c]" "provider c = Fulfilled d"
  shows "fst (searchByPhone_try provider req) = list_envelope (js ''customers'') [] d"
proof (cases "fieldRoutesClient req")
  case None
  with assms show ?thesis
    by (simp add: searchByPhone_try_def client_get_def Let_def split: option.splits if_splits)
next
  case (Some cl)
  with assms show ?thesis
    by (auto simp: searchByPhone_try_def client_get_Some Let_def split: option.splits if_splits)
qed

lemma searchCustomers_try_fulfilled:
  assumes "snd (searchCustomers_try provider req) = [c]" "provider c = Fulfilled d"
  shows "\<exists>extra. fst (searchCustomers_try provider req) = list_envelope (js ''customers'') extra d"
proof (cases "fieldRoutesClient req")
  case None
  with assms show ?thesis
    by (simp add: searchCustomers_try_def client_get_def Let_def split: option.splits if_splits)
next
  case (Some cl)
  with assms show ?thesis
    by (auto simp: searchCustomers_try_def client_get_Some Let_def split: option.splits if_splits)
qed

lemma search_route_envelope:
  assumes R: "R = searchByEmail \<or> R = searchByPhone \<or> R = searchCustomers"
    and c: "calls (R e provider req) = [c]"
    and p: "provider c = Fulfilled (JObj ps)"
  shows "\<exists>extra. reply (R e provider req) =
     send 200
       ([(js ''success'', JBool True),
         (js ''data'', js_or (own_prop (JObj ps) (js ''customers'')) (JArr [])),
         (js ''total'', js_or (own_prop (JObj ps) (js ''total'')) (JNum (Fin 0)))] @ extra)"
    (is "\<exists>extra. ?P extra")
proof -
  from R consider (email) "R = searchByEmail" | (phone) "R = searchByPhone"
    | (freetext) "R = searchCustomers" by blast
  then show ?thesis
  proof cases
    case email
    with c have au: "authed req"
      by (simp add: searchByEmail_def calls_validateCredentials split: if_splits)
    with c email have "snd (searchByEmail_try provider (attach e req)) = [c]"
      by (simp add: searchByEmail_def calls_validateCredentials calls_caught)
    from searchByEmail_try_fulfilled [OF this p]
    have "fst (searchByEmail_try provider (attach e req)) =
        list_envelope (js ''customers'') [] (JObj ps)" .
    with au email have "?P []"
      by (simp add: searchByEmail_def reply_validateCredentials reply_caught_Inr
          list_envelope_JObj)
    then show ?thesis ..
  next
    case phone
    with c have au: "authed req"
      by (simp add: searchByPhone_def calls_validateCredentials split: if_splits)
    with c phone have "snd (searchByPhone_try provider (attach e req)) = [c]"
      by (simp add: searchByPhone_def calls_validateCredentials calls_caught)
    from searchByPhone_try_fulfilled [OF this p]
    have "fst (searchByPhone_try provider (attach e req)) =
        list_envelope (js ''customers'') [] (JObj ps)" .
    with au phone have "?P []"
      by (simp add: searchByPhone_def reply_validateCredentials reply_caught_Inr
          list_envelope_JObj)
    then show ?thesis ..
  next
    case freetext
    with c have au: "authed req"
      by (simp add: searchCustomers_def calls_validateCredentials split: if_splits)
    with c freetext have "snd (searchCustomers_try provider (attach e req)) = [c]"
      by (simp add: searchCustomers_def calls_validateCredentials calls_caught)
    from searchCustomers_try_fulfilled [OF this p]
    obtain extra where "fst (searchCustomers_try provider (attach e req)) =
        list_envelope (js ''customers'') extra (JObj ps)" by blast
    with au freetext have "?P extra"
      by (simp add: searchCustomers_def reply_validateCredentials reply_caught_Inr
          list_envelope_JObj)
    then show ?thesis ..
  qed
qed

section \<open>The parameters of the outbound calls\<close>

lemma Math_min_Fin: "Math_min (Fin x) (Fin y) = Fin (min x y)"
  by (auto simp: Math_min_def min_def)

lemma Math_max_Fin: "Math_max (Fin x) (Fin y) = Fin (max x y)"
  by (auto simp: Math_max_def max_def)

lemma Math_min_not_above: "\<not> js_lt (Fin cap) (Math_min l (Fin cap))"
  by (cases l) (auto simp: Math_min_def)

lemma Math_max_not_below: "\<not> js_lt (Math_max off (Fin 0)) (Fin 0)"
  by (cases off) (auto simp: Math_max_def)

lemma Math_min_le_cap: "l \<noteq> NaN \<Longrightarrow> js_le (Math_min l (Fin cap)) (Fin cap)"
  by (cases l) (auto simp: Math_min_def js_le_def)

lemma Math_max_ge_zero: "off \<noteq> NaN \<Longrightarrow> js_le (Fin 0) (Math_max off (Fin 0))"
  by (cases off) (auto simp: Math_max_def js_le_def)

lemma searchCustomers_try_calls:
  "c \<in> set (snd (searchCustomers_try provider req)) \<Longrightarrow>
   \<exists>q. params c =
     [(js ''q'', JStr q),
      (js ''limit'', JNum (Math_min (or_default (query_limit req) (Fin 10)) (Fin 50))),
      (js ''offset'', JNum (Math_max (or_default (query_offset req) (Fin 0)) (Fin 0)))]"
  by (cases "fieldRoutesClient req")
     (auto simp: searchCustomers_try_def client_get_def Let_def split: option.splits if_splits)

lemma getServices_try_calls:
  "c \<in> set (snd (getServices_try provider req)) \<Longrightarrow>
   params c =
     [(js ''limit'', JNum (Math_min (or_default (query_limit req) (Fin 20)) (Fin 100))),
      (js ''offset'', JNum (Math_max (or_default (query_offset req) (Fin 0)) (Fin 0))),
      (js ''sort'', JStr (js ''date_desc''))]"
  by (cases "fieldRoutesClient req")
     (auto simp: getServices_try_def client_get_def Let_def split: option.splits if_splits)

lemma getAppointments_try_calls:
  "c \<in> set (snd (getAppointments_try provider req)) \<Longrightarrow>
   \<exists>i rest. params c =
     [(js ''customer_id'', JStr i),
      (js ''limit'', JNum (Math_min (or_default (query_limit req) (Fin 10)) (Fin 50)))] @ rest"
  by (cases "fieldRoutesClient req")
     (auto simp: getAppointments_try_def client_get_def Let_def split: option.splits if_splits)

lemma searchByEmail_try_calls:
  "c \<in> set (snd (searchByEmail_try provider req)) \<Longrightarrow>
   \<exists>email. params c = [(js ''email'', JStr email), (js ''limit'', JNum (Fin 10))]"
  by (cases "fieldRoutesClient req")
     (auto simp: searchByEmail_try_def client_get_def Let_def split: option.splits if_splits)

lemma searchByPhone_try_calls:
  "c \<in> set (snd (searchByPhone_try provider req)) \<Longrightarrow>
   \<exists>phone. param_phone req = Some phone
     \<and> params c = [(js ''phone'', JStr (cleanPhone phone)), (js ''limit'', JNum (Fin 10))]"
  by (cases "fieldRoutesClient req")
     (auto simp: searchByPhone_try_def client_get_def Let_def split: option.splits if_splits)

lemma paging_keys:
  "js ''q'' \<noteq> js ''limit''" "js ''q'' \<noteq> js ''offset''" "js ''limit'' \<noteq> js ''offset''"
  "js ''customer_id'' \<noteq> js ''limit''" "js ''email'' \<noteq> js ''limit''"
  "js ''phone'' \<noteq> js ''limit''"
  by (simp_all add: js_def)

lemma searchCustomers_paging:
  assumes "c \<in> set (calls (searchCustomers e provider req))"
  shows "map_of (params c) (js ''limit'') =
           Some (JNum (Math_min (or_default (query_limit req) (Fin 10)) (Fin 50)))
       \<and> map_of (params c) (js ''offset'') =
           Some (JNum (Math_max (or_default (query_offset req) (Fin 0)) (Fin 0)))"
proof -
  from assms have "c \<in> set (snd (searchCustomers_try provider (attach e req)))"
    by (simp add: searchCustomers_def calls_validateCredentials calls_caught split: if_splits)
  from searchCustomers_try_calls [OF this] show ?thesis
    using paging_keys by auto
qed

lemma getServices_paging:
  assumes "c \<in> set (calls (getServices e provider req))"
  shows "map_of (params c) (js ''limit'') =
           Some (JNum (Math_min (or_default (query_limit req) (Fin 20)) (Fin 100)))
       \<and> map_of (params c) (js ''offset'') =
           Some (JNum (Math_max (or_default (query_offset req) (Fin 0)) (Fin 0)))"
proof -
  from assms have "c \<in> set (snd (getServices_try provider (attach e req)))"
    by (simp add: getServices_def calls_validateCredentials calls_caught_not_found
        split: if_splits)
  from getServices_try_calls [OF this] show ?thesis
    using paging_keys by auto
qed

lemma getAppointments_paging:
  assumes "c \<in> set (calls (getAppointments e provider req))"
  shows "map_of (params c) (js ''limit'') =
           Some (JNum (Math_min (or_default (query_limit req) (Fin 10)) (Fin 50)))"
proof -
  from assms have "c \<in> set (snd (getAppointments_try provider (attach e req)))"
    by (simp add: getAppointments_def calls_validateCredentials calls_caught split: if_splits)
  from getAppointments_try_calls [OF this] show ?thesis
    using paging_keys by auto
qed

lemma searchByEmail_paging:
  assumes "c \<in> set (calls (searchByEmail e provider req))"
  shows "map_of (params c) (js ''limit'') = Some (JNum (Fin 10))"
proof -
  from assms have "c \<in> set (snd (searchByEmail_try provider (attach e req)))"
    by (simp add: searchByEmail_def calls_validateCredentials calls_caught split: if_splits)
  from searchByEmail_try_calls [OF this] show ?thesis
    using paging_keys by auto
qed

lemma searchByPhone_paging:
  assumes "c \<in> set (calls (searchByPhone e provider req))"
  shows "map_of (params c) (js ''limit'') = Some (JNum (Fin 10))"
proof -
  from assms have "c \<in> set (snd (searchByPhone_try provider (attach e req)))"
    by (simp add: searchByPhone_def calls_validateCredentials calls_caught split: if_splits)
  from searchByPhone_try_calls [OF this] show ?thesis
    using paging_keys by auto
qed

lemma searchByPhone_calls:
  assumes "c \<in> set (calls (searchByPhone e provider req))"
  shows "\<exists>phone. param_phone req = Some phone
     \<and> params c = [(js ''phone'', JStr (cleanPhone phone)), (js ''limit'', JNum (Fin 10))]"
proof -
  from assms have "c \<in> set (snd (searchByPhone_try provider (attach e req)))"
    by (simp add: searchByPhone_def calls_validateCredentials calls_caught split: if_splits)
  from searchByPhone_try_calls [OF this] show ?thesis by simp
qed

lemma cleanPhone_example: "cleanPhone (js ''(555) 123-4567'') = js ''5551234567''"
  by code_simp

section \<open>Header names as Node delivers them\<close>

lemma toLowerCase_not_upper:
  "\<not> (of_char CHR ''A'' \<le> toLowerCase c \<and> toLowerCase c \<le> of_char CHR ''Z'')"
  unfolding toLowerCase_def by (simp split: if_splits) unat_arith

lemma incoming_header_names:
  assumes "k \<in> fst ` set (incoming_headers raw)" "c \<in> set k"
  shows "\<not> (of_char CHR ''A'' \<le> c \<and> c \<le> of_char CHR ''Z'')"
proof -
  from assms(1) obtain n where "k = map toLowerCase n"
    by (auto simp: incoming_headers_def)
  with assms(2) obtain x where "c = toLowerCase x" by auto
  then show ?thesis by (simp only: toLowerCase_not_upper not_False_eq_True)
qed

lemma mixed_case_name_absent:
  assumes "c \<in> set k" "of_char CHR ''A'' \<le> c \<and> c \<le> of_char CHR ''Z''"
  shows "map_of (incoming_headers raw) k = None"
proof (rule ccontr)
  assume "map_of (incoming_headers raw) k \<noteq> None"
  then have "k \<in> fst ` set (incoming_headers raw)"
    by (simp add: map_of_eq_None_iff)
  from incoming_header_names [OF this assms(1)] assms(2) show False by simp
qed

lemma credential_names_have_upper_case:
  "of_char CHR ''K'' \<in> set (js ''apiKey'')"
  "of_char CHR ''A'' \<le> (of_char CHR ''K'' :: jschar) \<and> (of_char CHR ''K'' :: jschar) \<le> of_char CHR ''Z''"
  "of_char CHR ''S'' \<in> set (js ''apiSecret'')"
  "of_char CHR ''A'' \<le> (of_char CHR ''S'' :: jschar) \<and> (of_char CHR ''S'' :: jschar) \<le> of_char CHR ''Z''"
  by (simp_all add: js_def)

lemma inbound_credentials_absent:
  "hdr_apiKey (inbound raw req) = None" "hdr_apiSecret (inbound raw req) = None"
  using mixed_case_name_absent [OF credential_names_have_upper_case(1,2)]
    mixed_case_name_absent [OF credential_names_have_upper_case(3,4)]
  by (simp_all add: inbound_def)

section \<open>The body of the normalized error\<close>

lemma reported_message_cases:
  "reported_message error =
     (case response error of
        None \<Rightarrow> JUndefined
      | Some r \<Rightarrow>
          (case data r of
             JObj ps \<Rightarrow> (case map_of ps (js ''message'') of None \<Rightarrow> JUndefined | Some m \<Rightarrow> m)
           | _ \<Rightarrow> JUndefined))"
proof (cases "response error")
  case None
  then show ?thesis by (simp add: reported_message_def reported_data_def)
next
  case (Some r)
  then show ?thesis
    by (cases "data r") (simp_all add: reported_message_def reported_data_def)
qed

lemma handleApiError_body:
  "json (handleApiError e error d) =
     JObj ([(js ''error'', JStr (js ''API Error'')),
            (js ''message'',
               (let reported =
                      (case response error of
                         None \<Rightarrow> JUndefined
                       | Some r \<Rightarrow>
                           (case data r of
                              JObj ps \<Rightarrow>
                                (case map_of ps (js ''message'') of
                                   None \<Rightarrow> JUndefined
                                 | Some m \<Rightarrow> m)
                            | _ \<Rightarrow> JUndefined))
                in if truthy reported then reported
                   else if truthy (message error) then message error
                   else JStr d))]
           @ (case response error of
                None \<Rightarrow> []
              | Some r \<Rightarrow>
                  if NODE_ENV e = Some (js ''development'') \<and> data r \<noteq> JUndefined
                  then [(js ''details'', data r)] else []))"
proof -
  have "js_or (js_or (reported_message error) (message error)) (JStr d) =
      (if truthy (reported_message error) then reported_message error
       else if truthy (message error) then message error else JStr d)"
    by (simp add: js_or_def)
  moreover have "(if NODE_ENV e = Some (js ''development'') \<and> reported_data error \<noteq> JUndefined
              then [(js ''details'', reported_data error)] else []) =
      (case response error of
                None \<Rightarrow> []
              | Some r \<Rightarrow>
                  if NODE_ENV e = Some (js ''development'') \<and> data r \<noteq> JUndefined
                  then [(js ''details'', data r)] else [])"
    by (simp add: reported_data_def split: option.splits)
  ultimately show ?thesis
    unfolding handleApiError_json Let_def by (simp only: reported_message_cases)
qed

section \<open>The credential validator\<close>

text \<open>
  C1. The second half of the claim fails on every request the server receives.
  \<open>validateCredentials\<close> reads the properties \<open>apiKey\<close> and \<open>apiSecret\<close> of
  \<open>req.headers\<close>, and Node delivers the header names in lower case: whatever header
  lines were sent, neither property exists, so the reply is 401 with
  \<open>{error: "Missing API credentials", message: "API key and secret are required"}\<close>,
  no client is constructed, the provider is not called and the handler does not run.
\<close>

theorem inbound_credentials_never_found:
  "hdr_apiKey (inbound raw req) = None
   \<and> hdr_apiSecret (inbound raw req) = None
   \<and> validateCredentials e (inbound raw req) next =
       \<lparr>reply = missing_credentials, created = [], calls = []\<rparr>
   \<and> missing_credentials =
        \<lparr>statusCode = 401,
         json = JObj [(js ''error'', JStr (js ''Missing API credentials'')),
                      (js ''message'', JStr (js ''API key and secret are required''))]\<rparr>"
proof (intro conjI)
  show "hdr_apiKey (inbound raw req) = None" by (rule inbound_credentials_absent)
  show "hdr_apiSecret (inbound raw req) = None" by (rule inbound_credentials_absent)
  show "validateCredentials e (inbound raw req) next =
       \<lparr>reply = missing_credentials, created = [], calls = []\<rparr>"
    by (simp add: validateCredentials_def inbound_credentials_absent)
  show "missing_credentials =
        \<lparr>statusCode = 401,
         json = JObj [(js ''error'', JStr (js ''Missing API credentials'')),
                      (js ''message'', JStr (js ''API key and secret are required''))]\<rparr>"
    by (simp add: missing_credentials_def send_def)
qed

theorem inbound_credentials_witness:
  "map_of sent_headers (js ''apiKey'') = Some (js ''key'')
   \<and> map_of sent_headers (js ''apiSecret'') = Some (js ''secret'')
   \<and> getCustomer example_env (provider_finds (JObj [])) (inbound sent_headers example_request) =
       \<lparr>reply = missing_credentials, created = [], calls = []\<rparr>"
proof -
  have s: "map_of sent_headers (js ''apiKey'') = Some (js ''key'')
      \<and> map_of sent_headers (js ''apiSecret'') = Some (js ''secret'')"
    by code_simp
  have "getCustomer example_env (provider_finds (JObj [])) (inbound sent_headers example_request) =
       \<lparr>reply = missing_credentials, created = [], calls = []\<rparr>"
    unfolding getCustomer_def
    by (rule inbound_credentials_never_found [THEN conjunct2, THEN conjunct2, THEN conjunct1])
  with s show ?thesis by blast
qed

section \<open>The error normalizer\<close>

text \<open>
  C2, as the code has it. The status of the reply is the provider-reported status when
  there is one and it is not 0, else 500. The body is \<open>error: "API Error"\<close>, then the
  message, then \<open>details\<close> when there are any. The message is the \<open>message\<close> field
  of the provider's response body when that field is truthy, else the error's own message
  when that is truthy, else the route's default. \<open>details\<close> is the provider's response
  body and is there only when \<open>NODE_ENV\<close> is \<open>development\<close>, so never in production.
\<close>

theorem handleApiError_truthy_chain:
  "(response error = None \<longrightarrow> statusCode (handleApiError e error d) = 500)
   \<and> (response error = Some r \<and> status r \<noteq> 0 \<longrightarrow>
        statusCode (handleApiError e error d) = status r)
   \<and> (response error = Some r \<and> status r = 0 \<longrightarrow>
        statusCode (handleApiError e error d) = 500)
   \<and> json (handleApiError e error d) =
       JObj ([(js ''error'', JStr (js ''API Error'')),
              (js ''message'',
                 (let reported =
                        (case response error of
                           None \<Rightarrow> JUndefined
                         | Some r \<Rightarrow>
                             (case data r of
                                JObj ps \<Rightarrow>
                                  (case map_of ps (js ''message'') of
                                     None \<Rightarrow> JUndefined
                                   | Some m \<Rightarrow> m)
                              | _ \<Rightarrow> JUndefined))
                  in if truthy reported then reported
                     else if truthy (message error) then message error
                     else JStr d))]
             @ (case response error of
                  None \<Rightarrow> []
                | Some r \<Rightarrow>
                    if NODE_ENV e = Some (js ''development'') \<and> data r \<noteq> JUndefined
                    then [(js ''details'', data r)] else []))
   \<and> (json (handleApiError e error d) = JObj kvs \<and> map_of kvs (js ''details'') = Some v \<longrightarrow>
        NODE_ENV e = Some (js ''development'') \<and> NODE_ENV e \<noteq> Some (js ''production'')
        \<and> (\<exists>r. response error = Some r \<and> v = data r))"
proof (intro conjI)
  show "response error = None \<longrightarrow> statusCode (handleApiError e error d) = 500"
    by (simp add: handleApiError_status)
next
  show "response error = Some r \<and> status r \<noteq> 0 \<longrightarrow>
        statusCode (handleApiError e error d) = status r"
    by (simp add: handleApiError_status)
next
  show "response error = Some r \<and> status r = 0 \<longrightarrow>
        statusCode (handleApiError e error d) = 500"
    by (simp add: handleApiError_status)
next
  show "json (handleApiError e error d) =
       JObj ([(js ''error'', JStr (js ''API Error'')),
              (js ''message'',
                 (let reported =
                        (case response error of
                           None \<Rightarrow> JUndefined
                         | Some r \<Rightarrow>
                             (case data r of
                                JObj ps \<Rightarrow>
                                  (case map_of ps (js ''message'') of
                                     None \<Rightarrow> JUndefined
                                   | Some m \<Rightarrow> m)
                              | _ \<Rightarrow> JUndefined))
                  in if truthy reported then reported
                     else if truthy (message error) then message error
                     else JStr d))]
             @ (case response error of
                  None \<Rightarrow> []
                | Some r \<Rightarrow>
                    if NODE_ENV e = Some (js ''development'') \<and> data r \<noteq> JUndefined
                    then [(js ''details'', data r)] else []))"
    by (rule handleApiError_body)
next
  show "json (handleApiError e error d) = JObj kvs \<and> map_of kvs (js ''details'') = Some v \<longrightarrow>
        NODE_ENV e = Some (js ''development'') \<and> NODE_ENV e \<noteq> Some (js ''production'')
        \<and> (\<exists>r. response error = Some r \<and> v = data r)"
  proof
    assume a: "json (handleApiError e error d) = JObj kvs \<and> map_of kvs (js ''details'') = Some v"
    have np: "js ''development'' \<noteq> js ''production''" by (simp add: js_def)
    from a have "map_of
        (case response error of
           None \<Rightarrow> []
         | Some r \<Rightarrow>
             if NODE_ENV e = Some (js ''development'') \<and> data r \<noteq> JUndefined
             then [(js ''details'', data r)] else []) (js ''details'') = Some v"
      unfolding handleApiError_body by (auto simp: keys_distinct)
    then show "NODE_ENV e = Some (js ''development'') \<and> NODE_ENV e \<noteq> Some (js ''production'')
        \<and> (\<exists>r. response error = Some r \<and> v = data r)"
      using np by (cases "response error") (auto split: if_splits)
  qed
qed

theorem handleApiError_witness:
  "(response network_error = None
      \<and> handleApiError example_env network_error (js ''Failed to fetch customer'') =
          \<lparr>statusCode = 500,
           json = JObj [(js ''error'', JStr (js ''API Error'')),
                        (js ''message'', JStr (js ''timeout of 10000ms exceeded''))]\<rparr>)
   \<and> ((response provider_error =
          Some \<lparr>status = 503, data = JObj [(js ''message'', JStr (js ''down''))]\<rparr>
        \<and> status \<lparr>status = 503, data = JObj [(js ''message'', JStr (js ''down''))]\<rparr> \<noteq> 0)
      \<and> handleApiError dev_env provider_error (js ''Failed to fetch customer'') =
          \<lparr>statusCode = 503,
           json = JObj [(js ''error'', JStr (js ''API Error'')),
                        (js ''message'', JStr (js ''down'')),
                        (js ''details'', JObj [(js ''message'', JStr (js ''down''))])]\<rparr>
      \<and> NODE_ENV dev_env \<noteq> Some (js ''production''))
   \<and> ((response status_zero_error = Some \<lparr>status = 0, data = JStr (js ''gone'')\<rparr>
        \<and> status \<lparr>status = 0, data = JStr (js ''gone'')\<rparr> = 0)
      \<and> handleApiError example_env status_zero_error (js ''Failed to fetch customer'') =
          \<lparr>statusCode = 500,
           json = JObj [(js ''error'', JStr (js ''API Error'')),
                        (js ''message'', JStr (js ''Failed to fetch customer''))]\<rparr>)"
proof -
  let ?d = "js ''Failed to fetch customer''"
  have h1: "response network_error = None"
    by (simp add: network_error_def)
  have h2: "response provider_error =
          Some \<lparr>status = 503, data = JObj [(js ''message'', JStr (js ''down''))]\<rparr>
        \<and> status \<lparr>status = 503, data = JObj [(js ''message'', JStr (js ''down''))]\<rparr> \<noteq> 0"
    by (simp add: provider_error_def)
  have h3: "response status_zero_error = Some \<lparr>status = 0, data = JStr (js ''gone'')\<rparr>
        \<and> status \<lparr>status = 0, data = JStr (js ''gone'')\<rparr> = 0"
    by (simp add: status_zero_error_def)
  note s1 = handleApiError_truthy_chain [THEN conjunct1, THEN mp, OF h1]
  note s2 = handleApiError_truthy_chain [THEN conjunct2, THEN conjunct1, THEN mp, OF h2]
  note s3 = handleApiError_truthy_chain
              [THEN conjunct2, THEN conjunct2, THEN conjunct1, THEN mp, OF h3]
  note j = handleApiError_truthy_chain
              [THEN conjunct2, THEN conjunct2, THEN conjunct2, THEN conjunct1]
  have ne: "js ''timeout of 10000ms exceeded'' \<noteq> []" "js ''down'' \<noteq> []"
    "js ''development'' \<noteq> js ''production''" "js ''production'' \<noteq> js ''development''"
    by (simp_all add: js_def)
  have j1: "json (handleApiError example_env network_error ?d) =
      JObj [(js ''error'', JStr (js ''API Error'')),
            (js ''message'', JStr (js ''timeout of 10000ms exceeded''))]"
    unfolding j [of example_env network_error ?d]
    by (simp add: network_error_def ne)
  have j2: "json (handleApiError dev_env provider_error ?d) =
      JObj [(js ''error'', JStr (js ''API Error'')),
            (js ''message'', JStr (js ''down'')),
            (js ''details'', JObj [(js ''message'', JStr (js ''down''))])]"
    unfolding j [of dev_env provider_error ?d]
    by (simp add: provider_error_def dev_env_def ne)
  have j3: "json (handleApiError example_env status_zero_error ?d) =
      JObj [(js ''error'', JStr (js ''API Error'')),
            (js ''message'', JStr (js ''Failed to fetch customer''))]"
    unfolding j [of example_env status_zero_error ?d]
    by (simp add: status_zero_error_def example_env_def ne)
  have k: "map_of [(js ''error'', JStr (js ''API Error'')),
            (js ''message'', JStr (js ''down'')),
            (js ''details'', JObj [(js ''message'', JStr (js ''down''))])] (js ''details'')
      = Some (JObj [(js ''message'', JStr (js ''down''))])"
    by (simp add: keys_distinct)
  note dt = handleApiError_truthy_chain
              [THEN conjunct2, THEN conjunct2, THEN conjunct2, THEN conjunct2, THEN mp,
               OF conjI [OF j2 k]]
  have r1: "handleApiError example_env network_error ?d =
          \<lparr>statusCode = 500,
           json = JObj [(js ''error'', JStr (js ''API Error'')),
                        (js ''message'', JStr (js ''timeout of 10000ms exceeded''))]\<rparr>"
    by (rule http_reply.equality) (simp_all add: s1 j1)
  have r2: "handleApiError dev_env provider_error ?d =
          \<lparr>statusCode = 503,
           json = JObj [(js ''error'', JStr (js ''API Error'')),
                        (js ''message'', JStr (js ''down'')),
                        (js ''details'', JObj [(js ''message'', JStr (js ''down''))])]\<rparr>"
    by (rule http_reply.equality) (simp_all add: s2 j2)
  have r3: "handleApiError example_env status_zero_error ?d =
          \<lparr>statusCode = 500,
           json = JObj [(js ''error'', JStr (js ''API Error'')),
                        (js ''message'', JStr (js ''Failed to fetch customer''))]\<rparr>"
    by (rule http_reply.equality) (simp_all add: s3 j3)
  from h1 h2 h3 r1 r2 r3 dt show ?thesis by blast
qed

text \<open>
  C2 as worded fails for a provider body whose \<open>message\<close> field is present and empty:
  the reply carries the error's own message instead.
\<close>

theorem empty_provider_message_counterexample:
  "response empty_message_error = Some \<lparr>status = 500, data = JObj [(js ''message'', JStr [])]\<rparr>
   \<and> map_of [(js ''message'', JStr [])] (js ''message'') = Some (JStr [])
   \<and> handleApiError example_env empty_message_error (js ''Failed to fetch customer'') =
       \<lparr>statusCode = 500,
        json = JObj [(js ''error'', JStr (js ''API Error'')),
                     (js ''message'', JStr (js ''Request failed with status code 500''))]\<rparr>"
  by code_simp

section \<open>Provider 404 on the identifier routes\<close>

text \<open>
  C3. Whenever the fetch-by-id route or the fetch-services route has called the provider and
  the call was rejected with HTTP status 404, the reply is 404 with exactly
  \<open>{error: "Customer not found", message: "No customer found with the provided ID"}\<close>.
\<close>

theorem provider_404_is_customer_not_found:
  "(calls (getCustomer e provider req) = [c] \<and> provider c = Rejected err
      \<and> response err = Some r \<and> status r = 404
      \<longrightarrow> reply (getCustomer e provider req) = customer_not_found)
   \<and> (calls (getServices e provider req) = [c] \<and> provider c = Rejected err
      \<and> response err = Some r \<and> status r = 404
      \<longrightarrow> reply (getServices e provider req) = customer_not_found)
   \<and> customer_not_found =
        \<lparr>statusCode = 404,
         json = JObj [(js ''error'', JStr (js ''Customer not found'')),
                      (js ''message'', JStr (js ''No customer found with the provided ID''))]\<rparr>"
proof (intro conjI impI)
  assume a: "calls (getCustomer e provider req) = [c] \<and> provider c = Rejected err
      \<and> response err = Some r \<and> status r = 404"
  then have au: "authed req"
    by (simp add: getCustomer_def calls_validateCredentials split: if_splits)
  with a have "snd (getCustomer_try provider (attach e req)) = [c]"
    by (simp add: getCustomer_def calls_validateCredentials calls_caught_not_found)
  with a have "fst (getCustomer_try provider (attach e req)) = Inl err"
    by (simp add: getCustomer_try_rejected)
  with a au show "reply (getCustomer e provider req) = customer_not_found"
    by (simp add: getCustomer_def reply_validateCredentials reply_caught_not_found_404)
next
  assume a: "calls (getServices e provider req) = [c] \<and> provider c = Rejected err
      \<and> response err = Some r \<and> status r = 404"
  then have au: "authed req"
    by (simp add: getServices_def calls_validateCredentials split: if_splits)
  with a have "snd (getServices_try provider (attach e req)) = [c]"
    by (simp add: getServices_def calls_validateCredentials calls_caught_not_found)
  with a have "fst (getServices_try provider (attach e req)) = Inl err"
    by (simp add: getServices_try_rejected)
  with a au show "reply (getServices e provider req) = customer_not_found"
    by (simp add: getServices_def reply_validateCredentials reply_caught_not_found_404)
next
  show "customer_not_found =
        \<lparr>statusCode = 404,
         json = JObj [(js ''error'', JStr (js ''Customer not found'')),
                      (js ''message'', JStr (js ''No customer found with the provided ID''))]\<rparr>"
    by (simp add: customer_not_found_def send_def)
qed

theorem provider_404_witness:
  "((calls (getCustomer example_env (provider_rejects 404) example_request) =
      [\<lparr>via = example_client, url = js ''/customers/c-7'', params = []\<rparr>]
    \<and> provider_rejects 404 \<lparr>via = example_client, url = js ''/customers/c-7'', params = []\<rparr> =
        Rejected \<lparr>message = JStr (js ''Request failed''),
                  response = Some \<lparr>status = 404, data = JNull\<rparr>\<rparr>
    \<and> response \<lparr>message = JStr (js ''Request failed''),
                  response = Some \<lparr>status = 404, data = JNull\<rparr>\<rparr> =
        Some \<lparr>status = 404, data = JNull\<rparr>
    \<and> status \<lparr>status = 404, data = JNull\<rparr> = 404)
   \<and> reply (getCustomer example_env (provider_rejects 404) example_request) = customer_not_found)
   \<and> ((calls (getServices example_env (provider_rejects 404) example_request) = [services_call]
    \<and> provider_rejects 404 services_call =
        Rejected \<lparr>message = JStr (js ''Request failed''),
                  response = Some \<lparr>status = 404, data = JNull\<rparr>\<rparr>
    \<and> response \<lparr>message = JStr (js ''Request failed''),
                  response = Some \<lparr>status = 404, data = JNull\<rparr>\<rparr> =
        Some \<lparr>status = 404, data = JNull\<rparr>
    \<and> status \<lparr>status = 404, data = JNull\<rparr> = 404)
   \<and> reply (getServices example_env (provider_rejects 404) example_request) = customer_not_found)"
  (is "(?H1 \<and> ?C1) \<and> (?H2 \<and> ?C2)")
proof -
  have h1: ?H1 by code_simp
  have h2: ?H2 by code_simp
  have c1: ?C1 by (rule provider_404_is_customer_not_found [THEN conjunct1, THEN mp, OF h1])
  have c2: ?C2
    by (rule provider_404_is_customer_not_found
               [THEN conjunct2, THEN conjunct1, THEN mp, OF h2])
  from h1 h2 c1 c2 show ?thesis by blast
qed

section \<open>The credential test route\<close>

text \<open>
  C8. Whenever \<open>POST /api/test-credentials\<close> has called the provider and the call was
  rejected with HTTP status 401 or 403, the reply is 401 with
  \<open>{error: "Invalid credentials", message: "The provided API credentials are invalid"}\<close>.
\<close>

theorem test_credentials_rejected_is_invalid:
  "(calls (testCredentials e provider req) = [c] \<and> provider c = Rejected err
      \<and> response err = Some r \<and> (status r = 401 \<or> status r = 403)
      \<longrightarrow> reply (testCredentials e provider req) = invalid_credentials)
   \<and> invalid_credentials =
        \<lparr>statusCode = 401,
         json = JObj [(js ''error'', JStr (js ''Invalid credentials'')),
                      (js ''message'', JStr (js ''The provided API credentials are invalid''))]\<rparr>"
proof (intro conjI impI)
  assume a: "calls (testCredentials e provider req) = [c] \<and> provider c = Rejected err
      \<and> response err = Some r \<and> (status r = 401 \<or> status r = 403)"
  then have "fst (testCredentials_try e provider req) = Inl err"
    by (simp add: testCredentials_proj testCredentials_try_rejected)
  with a show "reply (testCredentials e provider req) = invalid_credentials"
    by (auto simp: testCredentials_def response_status_is_def split: prod.splits)
next
  show "invalid_credentials =
        \<lparr>statusCode = 401,
         json = JObj [(js ''error'', JStr (js ''Invalid credentials'')),
                      (js ''message'', JStr (js ''The provided API credentials are invalid''))]\<rparr>"
    by (simp add: invalid_credentials_def send_def)
qed

theorem test_credentials_rejected_witness:
  "(calls (testCredentials example_env (provider_rejects 403) example_request) =
      [\<lparr>via = example_client, url = js ''/customers'',
        params = [(js ''limit'', JNum (Fin 1))]\<rparr>]
    \<and> provider_rejects 403
          \<lparr>via = example_client, url = js ''/customers'',
           params = [(js ''limit'', JNum (Fin 1))]\<rparr> =
        Rejected \<lparr>message = JStr (js ''Request failed''),
                  response = Some \<lparr>status = 403, data = JNull\<rparr>\<rparr>
    \<and> response \<lparr>message = JStr (js ''Request failed''),
                  response = Some \<lparr>status = 403, data = JNull\<rparr>\<rparr> =
        Some \<lparr>status = 403, data = JNull\<rparr>
    \<and> (status \<lparr>status = 403, data = JNull\<rparr> = 401
         \<or> status \<lparr>status = 403, data = JNull\<rparr> = 403))
   \<and> reply (testCredentials example_env (provider_rejects 403) example_request) =
       invalid_credentials"
  (is "?H \<and> ?C")
proof -
  have h: ?H by code_simp
  have c: ?C
    by (rule test_credentials_rejected_is_invalid [THEN conjunct1, rule_format, OF h])
  from h c show ?thesis by (rule conjI)
qed

text \<open>
  C10. An object body without \<open>apiKey\<close> or without \<open>apiSecret\<close> is answered 400
  with \<open>{error: "Missing credentials", message: "API key and secret are required"}\<close>,
  no client is constructed and no call is made. A request without a parsed body is not
  answered so: \<open>req.body\<close> is \<open>undefined\<close>, the destructuring at the head of the
  \<open>try\<close> block throws, and the \<open>catch\<close> answers 500 through \<open>handleApiError\<close>.
\<close>

theorem test_credentials_without_body:
  "(body req = JObj ps
      \<and> (map_of ps (js ''apiKey'') = None \<or> map_of ps (js ''apiSecret'') = None)
      \<longrightarrow> testCredentials e provider req =
            \<lparr>reply = missing_body_credentials, created = [], calls = []\<rparr>)
   \<and> (body req = JUndefined
      \<longrightarrow> testCredentials e provider req =
            \<lparr>reply =
               \<lparr>statusCode = 500,
                json = JObj [(js ''error'', JStr (js ''API Error'')),
                             (js ''message'',
                                JStr (js ''Cannot destructure property 'apiKey' of 'req.body' as it is undefined.''))]\<rparr>,
             created = [], calls = []\<rparr>)
   \<and> missing_body_credentials =
        \<lparr>statusCode = 400,
         json = JObj [(js ''error'', JStr (js ''Missing credentials'')),
                      (js ''message'', JStr (js ''API key and secret are required''))]\<rparr>"
proof (intro conjI impI)
  assume a: "body req = JObj ps
      \<and> (map_of ps (js ''apiKey'') = None \<or> map_of ps (js ''apiSecret'') = None)"
  then have "\<not> truthy (own_prop (JObj ps) (js ''apiKey''))
      \<or> \<not> truthy (own_prop (JObj ps) (js ''apiSecret''))"
    by auto
  with a have "testCredentials_try e provider req = (Inr missing_body_credentials, [], [])"
    by (simp add: testCredentials_try_def Let_def)
  then show "testCredentials e provider req =
            \<lparr>reply = missing_body_credentials, created = [], calls = []\<rparr>"
    by (simp add: testCredentials_def)
next
  assume a: "body req = JUndefined"
  then have t: "testCredentials_try e provider req =
      (Inl (destructureError (js ''apiKey'') (js ''req.body'') (js ''undefined'')), [], [])"
    by (simp add: testCredentials_try_def)
  have m: "message (destructureError (js ''apiKey'') (js ''req.body'') (js ''undefined'')) =
      JStr (js ''Cannot destructure property 'apiKey' of 'req.body' as it is undefined.'')"
    by (simp add: destructureError_def js_def)
  have r: "response (destructureError (js ''apiKey'') (js ''req.body'') (js ''undefined'')) = None"
    by (simp add: destructureError_def)
  have ne: "js ''Cannot destructure property 'apiKey' of 'req.body' as it is undefined.'' \<noteq> []"
    by (simp add: js_def)
  have "handleApiError e (destructureError (js ''apiKey'') (js ''req.body'') (js ''undefined''))
          (js ''Failed to test credentials'') =
        \<lparr>statusCode = 500,
                json = JObj [(js ''error'', JStr (js ''API Error'')),
                             (js ''message'',
                                JStr (js ''Cannot destructure property 'apiKey' of 'req.body' as it is undefined.''))]\<rparr>"
    using ne
    by (simp add: handleApiError_def reported_message_def reported_data_def m r send_def
        js_or_def Let_def)
  with t r show "testCredentials e provider req =
            \<lparr>reply =
               \<lparr>statusCode = 500,
                json = JObj [(js ''error'', JStr (js ''API Error'')),
                             (js ''message'',
                                JStr (js ''Cannot destructure property 'apiKey' of 'req.body' as it is undefined.''))]\<rparr>,
             created = [], calls = []\<rparr>"
    by (simp add: testCredentials_def response_status_is_def)
next
  show "missing_body_credentials =
        \<lparr>statusCode = 400,
         json = JObj [(js ''error'', JStr (js ''Missing credentials'')),
                      (js ''message'', JStr (js ''API key and secret are required''))]\<rparr>"
    by (simp add: missing_body_credentials_def send_def)
qed

theorem test_credentials_without_body_witness:
  "((body (example_request\<lparr>body := JObj [(js ''apiKey'', JStr (js ''key''))]\<rparr>) =
        JObj [(js ''apiKey'', JStr (js ''key''))]
      \<and> (map_of [(js ''apiKey'', JStr (js ''key''))] (js ''apiKey'') = None
          \<or> map_of [(js ''apiKey'', JStr (js ''key''))] (js ''apiSecret'') = None))
     \<and> testCredentials example_env (provider_finds (JObj []))
           (example_request\<lparr>body := JObj [(js ''apiKey'', JStr (js ''key''))]\<rparr>) =
         \<lparr>reply = missing_body_credentials, created = [], calls = []\<rparr>)
   \<and> (body (example_request\<lparr>body := JUndefined\<rparr>) = JUndefined
     \<and> statusCode (reply (testCredentials example_env (provider_finds (JObj []))
                              (example_request\<lparr>body := JUndefined\<rparr>))) = 500)"
proof -
  have h1: "body (example_request\<lparr>body := JObj [(js ''apiKey'', JStr (js ''key''))]\<rparr>) =
        JObj [(js ''apiKey'', JStr (js ''key''))]
      \<and> (map_of [(js ''apiKey'', JStr (js ''key''))] (js ''apiKey'') = None
          \<or> map_of [(js ''apiKey'', JStr (js ''key''))] (js ''apiSecret'') = None)"
    by code_simp
  have h2: "body (example_request\<lparr>body := JUndefined\<rparr>) = JUndefined" by simp
  note c1 = test_credentials_without_body [THEN conjunct1, THEN mp, OF h1]
  note c2 = test_credentials_without_body [THEN conjunct2, THEN conjunct1, THEN mp, OF h2]
  have "statusCode (reply (testCredentials example_env (provider_finds (JObj []))
                              (example_request\<lparr>body := JUndefined\<rparr>))) = 500"
    by (simp add: c2)
  with h1 h2 c1 show ?thesis by blast
qed

section \<open>Paging\<close>

text \<open>
  C4. Every call that the free-text search, the appointments route and the fetch-services
  route make carries \<open>limit = Math.min(requested, cap)\<close> with the cap 50, 50 and 100
  (the requested limit defaults to 10, 10 and 20), and the two routes that page carry
  \<open>offset = Math.max(requested, 0)\<close>; every call of the email and phone searches
  carries the fixed \<open>limit = 10\<close>. On numbers \<open>Math.min\<close> and \<open>Math.max\<close> are the
  minimum and the maximum, so the outbound limit is never greater than the cap and the
  outbound offset is never less than 0. A parameter that is not numeric gives \<open>NaN\<close>,
  which is passed on as \<open>NaN\<close> and compares neither above the cap nor below 0.
\<close>

theorem paging_clamp:
  "(\<forall>c \<in> set (calls (searchCustomers e provider req)).
      map_of (params c) (js ''limit'') =
        Some (JNum (Math_min (or_default (query_limit req) (Fin 10)) (Fin 50)))
      \<and> map_of (params c) (js ''offset'') =
        Some (JNum (Math_max (or_default (query_offset req) (Fin 0)) (Fin 0))))
   \<and> (\<forall>c \<in> set (calls (getAppointments e provider req)).
      map_of (params c) (js ''limit'') =
        Some (JNum (Math_min (or_default (query_limit req) (Fin 10)) (Fin 50))))
   \<and> (\<forall>c \<in> set (calls (getServices e provider req)).
      map_of (params c) (js ''limit'') =
        Some (JNum (Math_min (or_default (query_limit req) (Fin 20)) (Fin 100)))
      \<and> map_of (params c) (js ''offset'') =
        Some (JNum (Math_max (or_default (query_offset req) (Fin 0)) (Fin 0))))
   \<and> (\<forall>c \<in> set (calls (searchByEmail e provider req)).
      map_of (params c) (js ''limit'') = Some (JNum (Fin 10)))
   \<and> (\<forall>c \<in> set (calls (searchByPhone e provider req)).
      map_of (params c) (js ''limit'') = Some (JNum (Fin 10)))
   \<and> Math_min (Fin x) (Fin cap) = Fin (min x cap)
   \<and> Math_max (Fin y) (Fin 0) = Fin (max y 0)
   \<and> \<not> js_lt (Fin cap) (Math_min l (Fin cap))
   \<and> \<not> js_lt (Math_max off (Fin 0)) (Fin 0)
   \<and> (l \<noteq> NaN \<longrightarrow> js_le (Math_min l (Fin cap)) (Fin cap))
   \<and> (off \<noteq> NaN \<longrightarrow> js_le (Fin 0) (Math_max off (Fin 0)))"
proof (intro conjI ballI)
  fix c assume "c \<in> set (calls (searchCustomers e provider req))"
  from searchCustomers_paging [OF this]
  show "map_of (params c) (js ''limit'') =
        Some (JNum (Math_min (or_default (query_limit req) (Fin 10)) (Fin 50)))"
    and "map_of (params c) (js ''offset'') =
        Some (JNum (Math_max (or_default (query_offset req) (Fin 0)) (Fin 0)))"
    by simp_all
next
  fix c assume "c \<in> set (calls (getAppointments e provider req))"
  from getAppointments_paging [OF this]
  show "map_of (params c) (js ''limit'') =
        Some (JNum (Math_min (or_default (query_limit req) (Fin 10)) (Fin 50)))" .
next
  fix c assume "c \<in> set (calls (getServices e provider req))"
  from getServices_paging [OF this]
  show "map_of (params c) (js ''limit'') =
        Some (JNum (Math_min (or_default (query_limit req) (Fin 20)) (Fin 100)))"
    and "map_of (params c) (js ''offset'') =
        Some (JNum (Math_max (or_default (query_offset req) (Fin 0)) (Fin 0)))"
    by simp_all
next
  fix c assume "c \<in> set (calls (searchByEmail e provider req))"
  from searchByEmail_paging [OF this]
  show "map_of (params c) (js ''limit'') = Some (JNum (Fin 10))" .
next
  fix c assume "c \<in> set (calls (searchByPhone e provider req))"
  from searchByPhone_paging [OF this]
  show "map_of (params c) (js ''limit'') = Some (JNum (Fin 10))" .
next
  show "Math_min (Fin x) (Fin cap) = Fin (min x cap)" by (rule Math_min_Fin)
  show "Math_max (Fin y) (Fin 0) = Fin (max y 0)" by (rule Math_max_Fin)
  show "\<not> js_lt (Fin cap) (Math_min l (Fin cap))" by (rule Math_min_not_above)
  show "\<not> js_lt (Math_max off (Fin 0)) (Fin 0)" by (rule Math_max_not_below)
  show "l \<noteq> NaN \<longrightarrow> js_le (Math_min l (Fin cap)) (Fin cap)"
    by (simp add: Math_min_le_cap)
  show "off \<noteq> NaN \<longrightarrow> js_le (Fin 0) (Math_max off (Fin 0))"
    by (simp add: Math_max_ge_zero)
qed

theorem paging_clamp_witness:
  "(search_call \<in> set (calls (searchCustomers example_env (provider_finds (JObj []))
                            example_request))
      \<and> map_of (params search_call) (js ''limit'') =
          Some (JNum (Math_min (or_default (query_limit example_request) (Fin 10)) (Fin 50)))
      \<and> map_of (params search_call) (js ''offset'') =
          Some (JNum (Math_max (or_default (query_offset example_request) (Fin 0)) (Fin 0))))
   \<and> (appointments_call \<in> set (calls (getAppointments example_env (provider_finds (JObj []))
                                   example_request))
      \<and> map_of (params appointments_call) (js ''limit'') =
          Some (JNum (Math_min (or_default (query_limit example_request) (Fin 10)) (Fin 50))))
   \<and> (services_call \<in> set (calls (getServices example_env (provider_finds (JObj []))
                               example_request))
      \<and> map_of (params services_call) (js ''limit'') =
          Some (JNum (Math_min (or_default (query_limit example_request) (Fin 20)) (Fin 100))))
   \<and> (email_call \<in> set (calls (searchByEmail example_env (provider_finds (JObj []))
                            example_request))
      \<and> map_of (params email_call) (js ''limit'') = Some (JNum (Fin 10)))
   \<and> (phone_call \<in> set (calls (searchByPhone example_env (provider_finds (JObj []))
                            example_request))
      \<and> map_of (params phone_call) (js ''limit'') = Some (JNum (Fin 10)))
   \<and> (Fin 500 \<noteq> NaN \<and> js_le (Math_min (Fin 500) (Fin 50)) (Fin 50))
   \<and> (Fin (- 3) \<noteq> NaN \<and> js_le (Fin 0) (Math_max (Fin (- 3)) (Fin 0)))"
proof -
  have h6: "Fin 500 \<noteq> NaN" by simp
  have h7: "Fin (- 3) \<noteq> NaN" by simp
  note c6 = paging_clamp
              [THEN conjunct2, THEN conjunct2, THEN conjunct2, THEN conjunct2, THEN conjunct2,
               THEN conjunct2, THEN conjunct2, THEN conjunct2, THEN conjunct2, THEN conjunct1,
               THEN mp, OF h6]
  note c7 = paging_clamp
              [THEN conjunct2, THEN conjunct2, THEN conjunct2, THEN conjunct2, THEN conjunct2,
               THEN conjunct2, THEN conjunct2, THEN conjunct2, THEN conjunct2, THEN conjunct2,
               THEN mp, OF h7]
  have h1: "search_call \<in> set (calls (searchCustomers example_env (provider_finds (JObj []))
                            example_request))" by code_simp
  have h2: "appointments_call \<in> set (calls (getAppointments example_env
                            (provider_finds (JObj [])) example_request))" by code_simp
  have h3: "services_call \<in> set (calls (getServices example_env (provider_finds (JObj []))
                               example_request))" by code_simp
  have h4: "email_call \<in> set (calls (searchByEmail example_env (provider_finds (JObj []))
                            example_request))" by code_simp
  have h5: "phone_call \<in> set (calls (searchByPhone example_env (provider_finds (JObj []))
                            example_request))" by code_simp
  note c1 = paging_clamp [THEN conjunct1, THEN bspec, OF h1]
  note c2 = paging_clamp [THEN conjunct2, THEN conjunct1, THEN bspec, OF h2]
  note c3 = paging_clamp [THEN conjunct2, THEN conjunct2, THEN conjunct1, THEN bspec, OF h3]
  note c4 = paging_clamp
              [THEN conjunct2, THEN conjunct2, THEN conjunct2, THEN conjunct1, THEN bspec, OF h4]
  note c5 = paging_clamp
              [THEN conjunct2, THEN conjunct2, THEN conjunct2, THEN conjunct2, THEN conjunct1,
               THEN bspec, OF h5]
  from h1 h2 h3 h4 h5 h6 h7 c1 c2 c3 c4 c5 c6 c7 show ?thesis by blast
qed

section \<open>The email validator\<close>

text \<open>
  C5, as the code has it. \<open>isValidEmail\<close> accepts exactly the strings made of one or
  more non-whitespace non-\<open>@\<close> characters, an \<open>@\<close>, one or more non-whitespace
  non-\<open>@\<close> characters, a dot, and one or more non-whitespace non-\<open>@\<close> characters.
  When the \<open>:email\<close> parameter is absent or is not accepted, the email-search route
  never calls the provider, and a request that passes the credential check is answered 400.
\<close>

theorem email_validation:
  "(isValidEmail s \<longleftrightarrow>
      (\<exists>a b c. s = a @ js ''@'' @ b @ js ''.'' @ c
         \<and> a \<noteq> [] \<and> b \<noteq> [] \<and> c \<noteq> []
         \<and> (\<forall>x \<in> set (a @ b @ c). \<not> is_space x \<and> x \<noteq> of_char CHR ''@'')))
   \<and> (bad_email req \<longrightarrow> calls (searchByEmail e provider req) = [])
   \<and> (bad_email req \<and> authed req \<longrightarrow> reply (searchByEmail e provider req) = invalid_email)
   \<and> invalid_email =
        \<lparr>statusCode = 400,
         json = JObj [(js ''error'', JStr (js ''Invalid email address'')),
                      (js ''message'', JStr (js ''Please provide a valid email address''))]\<rparr>"
proof (intro conjI)
  show "isValidEmail s \<longleftrightarrow>
      (\<exists>a b c. s = a @ js ''@'' @ b @ js ''.'' @ c
         \<and> a \<noteq> [] \<and> b \<noteq> [] \<and> c \<noteq> []
         \<and> (\<forall>x \<in> set (a @ b @ c). \<not> is_space x \<and> x \<noteq> of_char CHR ''@''))"
    by (rule isValidEmail_iff)
next
  show "bad_email req \<longrightarrow> calls (searchByEmail e provider req) = []"
    by (simp add: searchByEmail_def calls_validateCredentials calls_caught searchByEmail_try_bad)
next
  show "bad_email req \<and> authed req \<longrightarrow> reply (searchByEmail e provider req) = invalid_email"
    by (simp add: searchByEmail_def reply_validateCredentials reply_caught_Inr
        searchByEmail_try_bad)
next
  show "invalid_email =
        \<lparr>statusCode = 400,
         json = JObj [(js ''error'', JStr (js ''Invalid email address'')),
                      (js ''message'', JStr (js ''Please provide a valid email address''))]\<rparr>"
    by (simp add: invalid_email_def send_def)
qed

theorem email_validation_witness:
  "(isValidEmail (js ''a@b.co'')
      \<and> (\<exists>a b c. js ''a@b.co'' = a @ js ''@'' @ b @ js ''.'' @ c
            \<and> a \<noteq> [] \<and> b \<noteq> [] \<and> c \<noteq> []
            \<and> (\<forall>x \<in> set (a @ b @ c). \<not> is_space x \<and> x \<noteq> of_char CHR ''@'')))
   \<and> ((bad_email bad_email_request \<and> authed bad_email_request)
      \<and> calls (searchByEmail example_env (provider_finds (JObj [])) bad_email_request) = []
      \<and> reply (searchByEmail example_env (provider_finds (JObj [])) bad_email_request) =
          invalid_email)"
proof -
  have h1: "isValidEmail (js ''a@b.co'')" by code_simp
  have h2: "bad_email bad_email_request \<and> authed bad_email_request" by code_simp
  note c1 = email_validation [THEN conjunct1, THEN iffD1, OF h1]
  note c2 = email_validation [THEN conjunct2, THEN conjunct1, THEN mp, OF h2 [THEN conjunct1]]
  note c3 = email_validation [THEN conjunct2, THEN conjunct2, THEN conjunct1, THEN mp, OF h2]
  from h1 h2 c1 c2 c3 show ?thesis by blast
qed

text \<open>
  C5 as worded lets the part after the dot contain \<open>@\<close>: \<open>a@b.c@d\<close> matches the
  worded pattern and is rejected by \<open>isValidEmail\<close>.
\<close>

theorem spec_email_pattern_counterexample:
  "rx_test spec_email_pattern (js ''a@b.c@d'') \<and> \<not> isValidEmail (js ''a@b.c@d'')"
  by code_simp

section \<open>The customer-id validator\<close>

text \<open>
  C6, as the code has it. \<open>isValidCustomerId\<close> accepts exactly the strings whose characters are all ASCII
  letters, digits, hyphens or underscores and whose length is between 1 and 99. When the
  \<open>:id\<close> parameter is absent or is not accepted, the three identifier routes never call
  the provider, and a request that passes the credential check is answered 400.
\<close>

theorem customer_id_validation:
  "(isValidCustomerId i \<longleftrightarrow>
      (\<forall>c \<in> set i.
         c \<in> set (js ''abcdefghijklmnopqrstuvwxyzABCDEFGHIJKLMNOPQRSTUVWXYZ0123456789-_''))
      \<and> 1 \<le> length i \<and> length i \<le> 99)
   \<and> (bad_id req \<longrightarrow>
        calls (getCustomer e provider req) = []
        \<and> calls (getServices e provider req) = []
        \<and> calls (getAppointments e provider req) = [])
   \<and> (bad_id req \<and> authed req \<longrightarrow>
        reply (getCustomer e provider req) = invalid_customer_id
        \<and> reply (getServices e provider req) = invalid_customer_id
        \<and> reply (getAppointments e provider req) = invalid_customer_id)
   \<and> invalid_customer_id =
        \<lparr>statusCode = 400,
         json = JObj [(js ''error'', JStr (js ''Invalid customer ID'')),
                      (js ''message'', JStr (js ''Please provide a valid customer ID''))]\<rparr>"
proof (intro conjI)
  show "isValidCustomerId i \<longleftrightarrow>
      (\<forall>c \<in> set i.
         c \<in> set (js ''abcdefghijklmnopqrstuvwxyzABCDEFGHIJKLMNOPQRSTUVWXYZ0123456789-_''))
      \<and> 1 \<le> length i \<and> length i \<le> 99"
    by (rule isValidCustomerId_iff)
next
  show "bad_id req \<longrightarrow>
        calls (getCustomer e provider req) = []
        \<and> calls (getServices e provider req) = []
        \<and> calls (getAppointments e provider req) = []"
    by (simp add: getCustomer_def getServices_def getAppointments_def calls_validateCredentials
        calls_caught calls_caught_not_found getCustomer_try_bad getServices_try_bad
        getAppointments_try_bad)
next
  show "bad_id req \<and> authed req \<longrightarrow>
        reply (getCustomer e provider req) = invalid_customer_id
        \<and> reply (getServices e provider req) = invalid_customer_id
        \<and> reply (getAppointments e provider req) = invalid_customer_id"
    by (simp add: getCustomer_def getServices_def getAppointments_def reply_validateCredentials
        reply_caught_Inr reply_caught_not_found_Inr getCustomer_try_bad getServices_try_bad
        getAppointments_try_bad)
next
  show "invalid_customer_id =
        \<lparr>statusCode = 400,
         json = JObj [(js ''error'', JStr (js ''Invalid customer ID'')),
                      (js ''message'', JStr (js ''Please provide a valid customer ID''))]\<rparr>"
    by (simp add: invalid_customer_id_def send_def)
qed

theorem customer_id_validation_witness:
  "((list_all
       (\<lambda>c. c \<in> set (js ''abcdefghijklmnopqrstuvwxyzABCDEFGHIJKLMNOPQRSTUVWXYZ0123456789-_''))
       (js ''c-7'')
      \<and> 1 \<le> length (js ''c-7'') \<and> length (js ''c-7'') \<le> 99)
     \<and> isValidCustomerId (js ''c-7''))
   \<and> ((bad_id bad_id_request \<and> authed bad_id_request)
      \<and> calls (getCustomer example_env (provider_finds (JObj [])) bad_id_request) = []
      \<and> reply (getCustomer example_env (provider_finds (JObj [])) bad_id_request) =
          invalid_customer_id)"
proof -
  have l: "list_all
       (\<lambda>c. c \<in> set (js ''abcdefghijklmnopqrstuvwxyzABCDEFGHIJKLMNOPQRSTUVWXYZ0123456789-_''))
       (js ''c-7'')
      \<and> 1 \<le> length (js ''c-7'') \<and> length (js ''c-7'') \<le> 99"
    by code_simp
  have h1: "(\<forall>c \<in> set (js ''c-7'').
         c \<in> set (js ''abcdefghijklmnopqrstuvwxyzABCDEFGHIJKLMNOPQRSTUVWXYZ0123456789-_''))
      \<and> 1 \<le> length (js ''c-7'') \<and> length (js ''c-7'') \<le> 99"
    using l unfolding list_all_iff .
  have h2: "bad_id bad_id_request \<and> authed bad_id_request"
    by code_simp
  note c1 = customer_id_validation [THEN conjunct1, THEN iffD2, OF h1]
  note c2 = customer_id_validation
              [THEN conjunct2, THEN conjunct1, THEN mp, OF h2 [THEN conjunct1]]
  note c3 = customer_id_validation
              [THEN conjunct2, THEN conjunct2, THEN conjunct1, THEN mp, OF h2]
  from l h2 c1 c2 c3 show ?thesis by blast
qed

text \<open>
  C6 as worded fails for a request without credentials: the id below is rejected by
  \<open>isValidCustomerId\<close>, and the reply is the 401 of the credential check, not 400.
\<close>

theorem bad_id_without_credentials_counterexample:
  "bad_id (bad_id_request\<lparr>hdr_apiKey := None, hdr_apiSecret := None\<rparr>)
   \<and> getCustomer example_env (provider_finds (JObj []))
        (bad_id_request\<lparr>hdr_apiKey := None, hdr_apiSecret := None\<rparr>) =
       \<lparr>reply =
          \<lparr>statusCode = 401,
           json = JObj [(js ''error'', JStr (js ''Missing API credentials'')),
                        (js ''message'', JStr (js ''API key and secret are required''))]\<rparr>,
        created = [], calls = []\<rparr>"
  by code_simp

section \<open>The search envelope\<close>

text \<open>
  C7, as the code has it. When a search route (by email, by phone, free text) has called the
  provider and the call was fulfilled with a JSON object, the reply is 200 with
  \<open>success: true\<close>; \<open>data\<close> is the \<open>customers\<close> list when there is one and the
  empty list when the field is absent; \<open>total\<close> is the provider's \<open>total\<close> when
  there is one and 0 when the field is absent. The two defaults are independent.
\<close>

theorem search_envelope_defaults:
  "(R = searchByEmail \<or> R = searchByPhone \<or> R = searchCustomers)
     \<and> calls (R e provider req) = [c] \<and> provider c = Fulfilled (JObj ps) \<longrightarrow>
     statusCode (reply (R e provider req)) = 200
   \<and> reply_field (R e provider req) ''success'' = JBool True
   \<and> (map_of ps (js ''customers'') = Some (JArr xs) \<longrightarrow>
        reply_field (R e provider req) ''data'' = JArr xs)
   \<and> (map_of ps (js ''customers'') = None \<longrightarrow>
        reply_field (R e provider req) ''data'' = JArr [])
   \<and> (map_of ps (js ''total'') = Some (JNum (Fin n)) \<longrightarrow>
        reply_field (R e provider req) ''total'' = JNum (Fin n))
   \<and> (map_of ps (js ''total'') = None \<longrightarrow>
        reply_field (R e provider req) ''total'' = JNum (Fin 0))"
proof (intro impI)
  assume a: "(R = searchByEmail \<or> R = searchByPhone \<or> R = searchCustomers)
     \<and> calls (R e provider req) = [c] \<and> provider c = Fulfilled (JObj ps)"
  then obtain extra where r: "reply (R e provider req) =
     send 200
       ([(js ''success'', JBool True),
         (js ''data'', js_or (own_prop (JObj ps) (js ''customers'')) (JArr [])),
         (js ''total'', js_or (own_prop (JObj ps) (js ''total'')) (JNum (Fin 0)))] @ extra)"
    using search_route_envelope [of R e provider req c ps] by blast
  have 1: "statusCode (reply (R e provider req)) = 200"
    by (simp add: r send_def)
  have 2: "reply_field (R e provider req) ''success'' = JBool True"
    unfolding reply_field_def r by (rule envelope_fields)
  have d: "reply_field (R e provider req) ''data'' =
      js_or (own_prop (JObj ps) (js ''customers'')) (JArr [])"
    unfolding reply_field_def r by (rule envelope_fields)
  have t: "reply_field (R e provider req) ''total'' =
      js_or (own_prop (JObj ps) (js ''total'')) (JNum (Fin 0))"
    unfolding reply_field_def r by (rule envelope_fields)
  have 3: "map_of ps (js ''customers'') = Some (JArr xs) \<longrightarrow>
        reply_field (R e provider req) ''data'' = JArr xs"
    by (simp add: d js_or_def)
  have 4: "map_of ps (js ''customers'') = None \<longrightarrow>
        reply_field (R e provider req) ''data'' = JArr []"
    by (simp add: d js_or_def)
  have 5: "map_of ps (js ''total'') = Some (JNum (Fin n)) \<longrightarrow>
        reply_field (R e provider req) ''total'' = JNum (Fin n)"
    by (simp add: t js_or_def)
  have 6: "map_of ps (js ''total'') = None \<longrightarrow>
        reply_field (R e provider req) ''total'' = JNum (Fin 0)"
    by (simp add: t js_or_def)
  from 1 2 3 4 5 6 show "statusCode (reply (R e provider req)) = 200
   \<and> reply_field (R e provider req) ''success'' = JBool True
   \<and> (map_of ps (js ''customers'') = Some (JArr xs) \<longrightarrow>
        reply_field (R e provider req) ''data'' = JArr xs)
   \<and> (map_of ps (js ''customers'') = None \<longrightarrow>
        reply_field (R e provider req) ''data'' = JArr [])
   \<and> (map_of ps (js ''total'') = Some (JNum (Fin n)) \<longrightarrow>
        reply_field (R e provider req) ''total'' = JNum (Fin n))
   \<and> (map_of ps (js ''total'') = None \<longrightarrow>
        reply_field (R e provider req) ''total'' = JNum (Fin 0))"
    by blast
qed

theorem search_envelope_witness:
  "(((searchByEmail = searchByEmail \<or> searchByEmail = searchByPhone
        \<or> searchByEmail = searchCustomers)
      \<and> calls (searchByEmail example_env (provider_finds (JObj three_customers))
                 example_request) = [email_call]
      \<and> provider_finds (JObj three_customers) email_call = Fulfilled (JObj three_customers))
    \<and> map_of three_customers (js ''customers'') =
         Some (JArr [JStr (js ''x''), JStr (js ''y''), JStr (js ''z'')])
    \<and> map_of three_customers (js ''total'') = Some (JNum (Fin 3))
    \<and> reply_field (searchByEmail example_env (provider_finds (JObj three_customers))
                     example_request) ''data''
         = JArr [JStr (js ''x''), JStr (js ''y''), JStr (js ''z'')]
    \<and> reply_field (searchByEmail example_env (provider_finds (JObj three_customers))
                     example_request) ''total''
         = JNum (Fin 3))
   \<and> (((searchByEmail = searchByEmail \<or> searchByEmail = searchByPhone
        \<or> searchByEmail = searchCustomers)
      \<and> calls (searchByEmail example_env (provider_finds (JObj [])) example_request) =
          [email_call]
      \<and> provider_finds (JObj []) email_call = Fulfilled (JObj []))
    \<and> map_of [] (js ''customers'') = (None :: jsval option)
    \<and> map_of [] (js ''total'') = (None :: jsval option)
    \<and> reply_field (searchByEmail example_env (provider_finds (JObj [])) example_request)
         ''data'' = JArr []
    \<and> reply_field (searchByEmail example_env (provider_finds (JObj [])) example_request)
         ''total'' = JNum (Fin 0))"
proof -
  have r: "searchByEmail = searchByEmail \<or> searchByEmail = searchByPhone
        \<or> searchByEmail = searchCustomers" by simp
  have k1: "calls (searchByEmail example_env (provider_finds (JObj three_customers))
                 example_request) = [email_call]" by code_simp
  have k2: "calls (searchByEmail example_env (provider_finds (JObj [])) example_request) =
          [email_call]" by code_simp
  have p1: "provider_finds (JObj three_customers) email_call = Fulfilled (JObj three_customers)"
    by (simp add: provider_finds_def)
  have p2: "provider_finds (JObj []) email_call = Fulfilled (JObj [])"
    by (simp add: provider_finds_def)
  have m1: "map_of three_customers (js ''customers'') =
        Some (JArr [JStr (js ''x''), JStr (js ''y''), JStr (js ''z'')])" by code_simp
  have m2: "map_of three_customers (js ''total'') = Some (JNum (Fin 3))" by code_simp
  have n1: "map_of [] (js ''customers'') = (None :: jsval option)" by simp
  have n2: "map_of [] (js ''total'') = (None :: jsval option)" by simp
  note c = search_envelope_defaults [THEN mp, OF conjI [OF r conjI [OF k1 p1]]]
  note e = search_envelope_defaults [THEN mp, OF conjI [OF r conjI [OF k2 p2]]]
  note d1 = c [THEN conjunct2, THEN conjunct2, THEN conjunct1, THEN mp, OF m1]
  note t1 = c [THEN conjunct2, THEN conjunct2, THEN conjunct2, THEN conjunct2, THEN conjunct1,
               THEN mp, OF m2]
  note d2 = e [THEN conjunct2, THEN conjunct2, THEN conjunct2, THEN conjunct1, THEN mp, OF n1]
  note t2 = e [THEN conjunct2, THEN conjunct2, THEN conjunct2, THEN conjunct2, THEN conjunct2,
               THEN mp, OF n2]
  from r k1 k2 p1 p2 m1 m2 n1 n2 d1 t1 d2 t2 show ?thesis by blast
qed

text \<open>
  C7 as worded fails for a provider body that omits \<open>customers\<close> and carries a
  \<open>total\<close>: the reply keeps that total.
\<close>

theorem total_without_customers_counterexample:
  "map_of [(js ''total'', JNum (Fin 5))] (js ''customers'') = None
   \<and> reply (searchByEmail example_env (provider_finds (JObj [(js ''total'', JNum (Fin 5))]))
              example_request) =
       \<lparr>statusCode = 200,
        json = JObj [(js ''success'', JBool True), (js ''data'', JArr []),
                     (js ''total'', JNum (Fin 5))]\<rparr>"
  by code_simp

section \<open>Phone normalization\<close>

text \<open>
  C9. \<open>cleanPhone\<close> keeps exactly the digits of its input, in order; applying it twice
  is applying it once; a string of digits is unchanged; \<open>(555) 123-4567\<close> becomes
  \<open>5551234567\<close>; and the phone-search route sends the normalized string as \<open>phone\<close>.
\<close>

theorem cleanPhone_keeps_exactly_the_digits:
  "cleanPhone s = filter is_digit s
   \<and> cleanPhone (cleanPhone s) = cleanPhone s
   \<and> ((\<forall>c \<in> set s. is_digit c) \<longrightarrow> cleanPhone s = s)
   \<and> cleanPhone (js ''(555) 123-4567'') = js ''5551234567''
   \<and> (\<forall>c \<in> set (calls (searchByPhone e provider req)).
         \<exists>phone. param_phone req = Some phone
           \<and> map_of (params c) (js ''phone'') = Some (JStr (cleanPhone phone)))"
proof (intro conjI)
  show "cleanPhone s = filter is_digit s" by (rule cleanPhone_filter)
  show "cleanPhone (cleanPhone s) = cleanPhone s" by (simp add: cleanPhone_filter)
  show "(\<forall>c \<in> set s. is_digit c) \<longrightarrow> cleanPhone s = s"
    by (simp add: cleanPhone_filter)
  show "cleanPhone (js ''(555) 123-4567'') = js ''5551234567''" by (rule cleanPhone_example)
  show "\<forall>c \<in> set (calls (searchByPhone e provider req)).
         \<exists>phone. param_phone req = Some phone
           \<and> map_of (params c) (js ''phone'') = Some (JStr (cleanPhone phone))"
  proof
    fix c assume "c \<in> set (calls (searchByPhone e provider req))"
    from searchByPhone_calls [OF this] show "\<exists>phone. param_phone req = Some phone
           \<and> map_of (params c) (js ''phone'') = Some (JStr (cleanPhone phone))"
      by auto
  qed
qed

theorem cleanPhone_witness:
  "(list_all is_digit (js ''5551234567'')
      \<and> cleanPhone (js ''5551234567'') = js ''5551234567'')
   \<and> (phone_call
        \<in> set (calls (searchByPhone example_env (provider_finds (JObj [])) example_request))
      \<and> (\<exists>phone. param_phone example_request = Some phone
            \<and> map_of (params phone_call) (js ''phone'') = Some (JStr (cleanPhone phone))))"
proof -
  have l: "list_all is_digit (js ''5551234567'')" by code_simp
  have h1: "\<forall>c \<in> set (js ''5551234567''). is_digit c"
    using l unfolding list_all_iff .
  have h2: "phone_call
        \<in> set (calls (searchByPhone example_env (provider_finds (JObj [])) example_request))"
    by code_simp
  note c1 = cleanPhone_keeps_exactly_the_digits
              [THEN conjunct2, THEN conjunct2, THEN conjunct1, THEN mp, OF h1]
  note c2 = cleanPhone_keeps_exactly_the_digits
              [THEN conjunct2, THEN conjunct2, THEN conjunct2, THEN conjunct2, THEN bspec, OF h2]
  from l h2 c1 c2 show ?thesis by blast
qed

end
